theory Spec2Isabelle
  imports Complex_Main
begin

section \<open>Python values, strings and library functions\<close>

text \<open>
  Responses and parameters are JSON-like Python values. A \<^verbatim>\<open>dict\<close> keeps its insertion
  order, so it is an association list. Clock readings (\<^verbatim>\<open>time.time()\<close>,
  \<^verbatim>\<open>loop.time()\<close>) and durations are idealised as real numbers.
\<close>

datatype pyval =
    PNone
  | PBool bool
  | PInt int
  | PFloat real
  | PStr string
  | PList "pyval list"
  | PDict "(string \<times> pyval) list"

type_synonym params = "(string \<times> pyval) list"

datatype py_error =
    ZeroDivisionError
  | SkuVaultAPIError string "int option"
  | PyException string
  | TimeoutError string
  | UnboundLocalError
  | KeyError string
  | TypeError string
  | ImportError string

text \<open>\<^verbatim>\<open>str.lower()\<close> on ASCII text: endpoint names, patterns and hex digests are ASCII.\<close>

definition lower_char :: "char \<Rightarrow> char" where
  "lower_char c =
     (case map_of (zip ''ABCDEFGHIJKLMNOPQRSTUVWXYZ'' ''abcdefghijklmnopqrstuvwxyz'') c of
        Some l \<Rightarrow> l
      | None \<Rightarrow> c)"

definition lower :: "string \<Rightarrow> string" where
  "lower s = map lower_char s"

text \<open>\<^verbatim>\<open>s.startswith(p)\<close> and the substring test \<^verbatim>\<open>p in s\<close>.\<close>

fun starts_with :: "string \<Rightarrow> string \<Rightarrow> bool" where
  "starts_with [] s = True"
| "starts_with (p # ps) [] = False"
| "starts_with (p # ps) (c # cs) = (p = c \<and> starts_with ps cs)"

fun str_contains :: "string \<Rightarrow> string \<Rightarrow> bool" where
  "str_contains p [] = (p = [])"
| "str_contains p (c # cs) = (starts_with p (c # cs) \<or> str_contains p cs)"

text \<open>\<^verbatim>\<open>isinstance(value, dict) and "error" in value\<close>\<close>

fun is_error_value :: "pyval \<Rightarrow> bool" where
  "is_error_value (PDict kvs) = (''error'' \<in> set (map fst kvs))"
| "is_error_value _ = False"

text \<open>
  Library functions the source calls and whose internals are outside the repository:
  \<^verbatim>\<open>hashlib.md5(s.encode()).hexdigest()\<close>, \<^verbatim>\<open>json.dumps(d, sort_keys=True)\<close>,
  \<^verbatim>\<open>str(v)\<close> and \<^verbatim>\<open>float(s)\<close> (\<open>None\<close> where it raises \<^verbatim>\<open>ValueError\<close>).
  They are parameters of the model.
\<close>

record pylib =
  md5_hexdigest :: "string \<Rightarrow> string"
  json_dumps :: "params \<Rightarrow> string"
  py_str :: "pyval \<Rightarrow> string"
  py_float :: "string \<Rightarrow> real option"

section \<open>cache.py: SimpleCache\<close>

type_synonym cache_store = "(string \<times> (pyval \<times> real)) list"

record SimpleCache =
  cache :: cache_store
  default_ttl :: int
  ttl_config :: "(string \<times> int) list"

definition SimpleCache_init :: "int \<Rightarrow> SimpleCache" where
  "SimpleCache_init d =
     \<lparr> cache = [],
       default_ttl = d,
       ttl_config =
         [(''warehouses'', 3600),
          (''product'', 300),
          (''products'', 60),
          (''inventory'', 30),
          (''default'', d)] \<rparr>"

text \<open>The process-wide instance \<^verbatim>\<open>global_cache = SimpleCache()\<close>.\<close>

definition global_cache :: SimpleCache where
  "global_cache = SimpleCache_init 300"

text \<open>Python dict operations on an association list with distinct keys.\<close>

fun dict_get :: "('k \<times> 'v) list \<Rightarrow> 'k \<Rightarrow> 'v option" where
  "dict_get [] k = None"
| "dict_get ((k', v) # kvs) k = (if k' = k then Some v else dict_get kvs k)"

fun dict_set :: "('k \<times> 'v) list \<Rightarrow> 'k \<Rightarrow> 'v \<Rightarrow> ('k \<times> 'v) list" where
  "dict_set [] k v = [(k, v)]"
| "dict_set ((k', v') # kvs) k v =
     (if k' = k then (k, v) # kvs else (k', v') # dict_set kvs k v)"

fun dict_del :: "('k \<times> 'v) list \<Rightarrow> 'k \<Rightarrow> ('k \<times> 'v) list" where
  "dict_del [] k = []"
| "dict_del ((k', v') # kvs) k =
     (if k' = k then kvs else (k', v') # dict_del kvs k)"

definition dict_keys :: "('k \<times> 'v) list \<Rightarrow> 'k list" where
  "dict_keys kvs = map fst kvs"

text \<open>\<^verbatim>\<open>_get_cache_key\<close>: credentials are dropped, the rest is serialised and hashed.\<close>

definition get_cache_key :: "pylib \<Rightarrow> string \<Rightarrow> params \<Rightarrow> string" where
  "get_cache_key L endpoint ps =
     (let cache_params = filter (\<lambda>(k, v). k \<notin> set [''TenantToken'', ''UserToken'']) ps;
          param_str = json_dumps L cache_params;
          key_str = endpoint @ '':'' @ param_str
      in md5_hexdigest L key_str)"

text \<open>
  \<^verbatim>\<open>_get_ttl\<close>: the loop over \<^verbatim>\<open>ttl_config.items()\<close> returns at the first key that is a
  substring of the lowercased endpoint name.
\<close>

fun ttl_loop :: "(string \<times> int) list \<Rightarrow> string \<Rightarrow> int option" where
  "ttl_loop [] endpoint_lower = None"
| "ttl_loop ((key, ttl) # rest) endpoint_lower =
     (if str_contains key endpoint_lower then Some ttl else ttl_loop rest endpoint_lower)"

definition get_ttl :: "SimpleCache \<Rightarrow> string \<Rightarrow> int" where
  "get_ttl c endpoint =
     (case ttl_loop (ttl_config c) (lower endpoint) of
        Some ttl \<Rightarrow> ttl
      | None \<Rightarrow> default_ttl c)"

text \<open>
  \<^verbatim>\<open>get\<close>: returns the value, or \<^verbatim>\<open>None\<close> when the key is absent or expired; an expired
  entry is deleted. The argument \<open>t\<close> is the reading of \<^verbatim>\<open>time.time()\<close>.
\<close>

definition cache_get :: "pylib \<Rightarrow> SimpleCache \<Rightarrow> string \<Rightarrow> params \<Rightarrow> real \<Rightarrow> pyval \<times> SimpleCache" where
  "cache_get L c endpoint ps t =
     (let cache_key = get_cache_key L endpoint ps
      in case dict_get (cache c) cache_key of
           Some (v, expiry_time) \<Rightarrow>
             if t < expiry_time then (v, c)
             else (PNone, c\<lparr>cache := dict_del (cache c) cache_key\<rparr>)
         | None \<Rightarrow> (PNone, c))"

text \<open>
  \<^verbatim>\<open>set\<close>: \<^verbatim>\<open>ttl = ttl or self._get_ttl(endpoint)\<close> takes the policy TTL when the argument
  is \<^verbatim>\<open>None\<close> or \<^verbatim>\<open>0\<close>.
\<close>

definition cache_set :: "pylib \<Rightarrow> SimpleCache \<Rightarrow> string \<Rightarrow> params \<Rightarrow> pyval \<Rightarrow> int option \<Rightarrow> real \<Rightarrow> SimpleCache" where
  "cache_set L c endpoint ps v ttl_arg t =
     (if is_error_value v then c
      else
        let cache_key = get_cache_key L endpoint ps;
            ttl = (case ttl_arg of
                     None \<Rightarrow> get_ttl c endpoint
                   | Some n \<Rightarrow> if n = 0 then get_ttl c endpoint else n);
            expiry_time = t + real_of_int ttl
        in c\<lparr>cache := dict_set (cache c) cache_key (v, expiry_time)\<rparr>)"

text \<open>
  \<^verbatim>\<open>invalidate\<close>: with a non-empty pattern, the keys containing it (both lowercased) are
  collected and then deleted one by one; otherwise everything is cleared.
\<close>

fun del_all :: "('k \<times> 'v) list \<Rightarrow> 'k list \<Rightarrow> ('k \<times> 'v) list" where
  "del_all kvs [] = kvs"
| "del_all kvs (k # ks) = del_all (dict_del kvs k) ks"

definition invalidate :: "SimpleCache \<Rightarrow> string option \<Rightarrow> nat \<times> SimpleCache" where
  "invalidate c pattern =
     (case pattern of
        Some p \<Rightarrow>
          if p \<noteq> [] then
            let to_remove = filter (\<lambda>key. str_contains (lower p) (lower key)) (dict_keys (cache c))
            in (length to_remove, c\<lparr>cache := del_all (cache c) to_remove\<rparr>)
          else (length (cache c), c\<lparr>cache := []\<rparr>)
      | None \<Rightarrow> (length (cache c), c\<lparr>cache := []\<rparr>))"

section \<open>rate_limiter.py: RateLimiter\<close>

text \<open>
  The clock and what the caller does with it. \<^verbatim>\<open>await asyncio.sleep(d)\<close> advances the
  clock by \<open>d\<close> (a non-positive delay returns at once); the trace records every sleep
  and every HTTP request. The model is one caller at a time: what other coroutines do
  while this one sleeps is not part of it.
\<close>

datatype event = Sleep real | HttpPost string params

record world =
  clock :: real
  trace :: "event list"

definition sleep :: "real \<Rightarrow> world \<Rightarrow> world" where
  "sleep d w = w\<lparr>clock := clock w + max 0 d, trace := trace w @ [Sleep d]\<rparr>"

text \<open>
  Retry counts and limits are Python ints that are only ever written from the literal
  table, from \<^verbatim>\<open>get(key, 0) + 1\<close> and from \<^verbatim>\<open>int()\<close> of a \<^verbatim>\<open>\d+\<close> match: naturals.
\<close>

record RateLimiter =
  last_call_times :: "string \<rightharpoonup> real"
  retry_counts :: "string \<rightharpoonup> nat"
  backoff_until :: "string \<rightharpoonup> real"
  rate_limits :: "string \<rightharpoonup> nat"

definition RateLimiter_init :: RateLimiter where
  "RateLimiter_init =
     \<lparr> last_call_times = Map.empty,
       retry_counts = Map.empty,
       backoff_until = Map.empty,
       rate_limits = map_of
         [(''getwarehouses'', 1),
          (''getproduct'', 5),
          (''getproducts'', 5),
          (''createproduct'', 5),
          (''updateproduct'', 5),
          (''getinventorybylocation'', 5),
          (''setitemquantity'', 5),
          (''additem'', 5),
          (''removeitem'', 5),
          (''products'', 5),
          (''inventory'', 5),
          (''warehouses'', 1),
          (''default'', 5)] \<rparr>"

definition get_rate_limit_key :: "RateLimiter \<Rightarrow> string \<Rightarrow> string" where
  "get_rate_limit_key rl endpoint =
     (let endpoint_lower = lower endpoint
      in if rate_limits rl endpoint_lower \<noteq> None then endpoint_lower
         else if str_contains ''product'' endpoint_lower then ''products''
         else if str_contains ''warehouse'' endpoint_lower then ''warehouses''
         else if str_contains ''inventory'' endpoint_lower \<or> str_contains ''location'' endpoint_lower
           then ''inventory''
         else ''default'')"

text \<open>
  \<^verbatim>\<open>wait_if_needed\<close>. \<^verbatim>\<open>current_time\<close> is read once, before the backoff sleep; the last
  call time is a fresh reading of the clock at the end. \<^verbatim>\<open>60.0 / calls_per_minute\<close>
  raises when the limit is zero; the limiter keeps what was mutated before.
\<close>

definition wait_if_needed :: "RateLimiter \<Rightarrow> string \<Rightarrow> world \<Rightarrow> (py_error + unit) \<times> RateLimiter \<times> world" where
  "wait_if_needed rl endpoint w =
     (let rate_key = get_rate_limit_key rl endpoint;
          current_time = clock w;
          (rl1, w1) =
            (case backoff_until rl rate_key of
               Some until \<Rightarrow>
                 let wait_time = until - current_time
                 in if wait_time > 0
                    then (rl\<lparr>backoff_until := (backoff_until rl)(rate_key := None)\<rparr>, sleep wait_time w)
                    else (rl, w)
             | None \<Rightarrow> (rl, w))
      in case last_call_times rl1 rate_key of
           Some last_call \<Rightarrow>
             let time_since_last = current_time - last_call;
                 calls_per_minute = (case rate_limits rl1 rate_key of Some n \<Rightarrow> n | None \<Rightarrow> 5)
             in if calls_per_minute = 0 then (Inl ZeroDivisionError, rl1, w1)
                else
                  let min_interval = 60 / real calls_per_minute;
                      w2 = (if time_since_last < min_interval
                            then sleep (min_interval - time_since_last) w1 else w1)
                  in (Inr (), rl1\<lparr>last_call_times := (last_call_times rl1)(rate_key \<mapsto> clock w2)\<rparr>, w2)
         | None \<Rightarrow>
             (Inr (), rl1\<lparr>last_call_times := (last_call_times rl1)(rate_key \<mapsto> clock w1)\<rparr>, w1))"

text \<open>
  The same function between its two awaits, for callers that overlap in time: a
  coroutine that awaits \<^verbatim>\<open>asyncio.sleep\<close> is suspended and others run on the same limiter
  until it is resumed. \<open>wait_enter\<close> runs from the call to the first await or to the end;
  \<open>wait_resume\<close> runs from the end of a sleep to the next await or to the end. After the
  backoff sleep the function deletes the backoff entry (\<^verbatim>\<open>KeyError\<close> if another caller has
  deleted it meanwhile) and goes on with the value of \<^verbatim>\<open>current_time\<close> it read on entry.
\<close>

datatype wait_point = BackoffSleep string real | SpacingSleep string

datatype wait_status = Suspended real wait_point | Returned | Raised py_error

definition wait_finish :: "RateLimiter \<Rightarrow> string \<Rightarrow> real \<Rightarrow> wait_status \<times> RateLimiter" where
  "wait_finish rl rate_key now =
     (Returned, rl\<lparr>last_call_times := (last_call_times rl)(rate_key \<mapsto> now)\<rparr>)"

definition wait_spacing_check :: "RateLimiter \<Rightarrow> string \<Rightarrow> real \<Rightarrow> real \<Rightarrow> wait_status \<times> RateLimiter" where
  "wait_spacing_check rl rate_key current_time now =
     (case last_call_times rl rate_key of
        Some last_call \<Rightarrow>
          let time_since_last = current_time - last_call;
              calls_per_minute = (case rate_limits rl rate_key of Some n \<Rightarrow> n | None \<Rightarrow> 5)
          in if calls_per_minute = 0 then (Raised ZeroDivisionError, rl)
             else
               let min_interval = 60 / real calls_per_minute
               in if time_since_last < min_interval
                  then (Suspended (min_interval - time_since_last) (SpacingSleep rate_key), rl)
                  else wait_finish rl rate_key now
      | None \<Rightarrow> wait_finish rl rate_key now)"

definition wait_enter :: "RateLimiter \<Rightarrow> string \<Rightarrow> real \<Rightarrow> wait_status \<times> RateLimiter" where
  "wait_enter rl endpoint now =
     (let rate_key = get_rate_limit_key rl endpoint;
          current_time = now
      in case backoff_until rl rate_key of
           Some until \<Rightarrow>
             let wait_time = until - current_time
             in if wait_time > 0
                then (Suspended wait_time (BackoffSleep rate_key current_time), rl)
                else wait_spacing_check rl rate_key current_time now
         | None \<Rightarrow> wait_spacing_check rl rate_key current_time now)"

fun wait_resume :: "RateLimiter \<Rightarrow> wait_point \<Rightarrow> real \<Rightarrow> wait_status \<times> RateLimiter" where
  "wait_resume rl (BackoffSleep rate_key current_time) now =
     (if backoff_until rl rate_key = None then (Raised (KeyError rate_key), rl)
      else wait_spacing_check (rl\<lparr>backoff_until := (backoff_until rl)(rate_key := None)\<rparr>)
             rate_key current_time now)"
| "wait_resume rl (SpacingSleep rate_key) now = wait_finish rl rate_key now"

text \<open>One caller alone: every sleep is followed at once by its own resumption.\<close>

definition wait_alone :: "RateLimiter \<Rightarrow> string \<Rightarrow> world \<Rightarrow> (py_error + unit) \<times> RateLimiter \<times> world" where
  "wait_alone rl endpoint w =
     (case wait_enter rl endpoint (clock w) of
        (Returned, rl1) \<Rightarrow> (Inr (), rl1, w)
      | (Raised err, rl1) \<Rightarrow> (Inl err, rl1, w)
      | (Suspended d1 k1, rl1) \<Rightarrow>
          let w1 = sleep d1 w
          in case wait_resume rl1 k1 (clock w1) of
               (Returned, rl2) \<Rightarrow> (Inr (), rl2, w1)
             | (Raised err, rl2) \<Rightarrow> (Inl err, rl2, w1)
             | (Suspended d2 k2, rl2) \<Rightarrow>
                 let w2 = sleep d2 w1
                 in case wait_resume rl2 k2 (clock w2) of
                      (Returned, rl3) \<Rightarrow> (Inr (), rl3, w2)
                    | (Raised err, rl3) \<Rightarrow> (Inl err, rl3, w2)
                    | (Suspended d3 k3, rl3) \<Rightarrow> (Inr (), rl3, w2))"

text \<open>
  \<^verbatim>\<open>handle_rate_limit_error\<close>. \<^verbatim>\<open>if retry_after:\<close> is false for \<^verbatim>\<open>None\<close> and for
  \<^verbatim>\<open>0.0\<close>. The argument \<open>t\<close> is the reading of \<^verbatim>\<open>time.time()\<close>.
\<close>

definition handle_rate_limit_error :: "RateLimiter \<Rightarrow> string \<Rightarrow> real option \<Rightarrow> real \<Rightarrow> real \<times> RateLimiter" where
  "handle_rate_limit_error rl endpoint retry_after t =
     (let rate_key = get_rate_limit_key rl endpoint;
          n = (case retry_counts rl rate_key of Some c \<Rightarrow> c | None \<Rightarrow> 0) + 1;
          rl1 = rl\<lparr>retry_counts := (retry_counts rl)(rate_key \<mapsto> n)\<rparr>;
          wait_time =
            (case retry_after of
               Some r \<Rightarrow> if r \<noteq> 0 then r else real (min (2 ^ n) 300)
             | None \<Rightarrow> real (min (2 ^ n) 300))
      in (wait_time, rl1\<lparr>backoff_until := (backoff_until rl1)(rate_key \<mapsto> t + wait_time)\<rparr>))"

definition reset_retry_count :: "RateLimiter \<Rightarrow> string \<Rightarrow> RateLimiter" where
  "reset_retry_count rl endpoint =
     (let rate_key = get_rate_limit_key rl endpoint
      in rl\<lparr>retry_counts := (retry_counts rl)(rate_key := None)\<rparr>)"

text \<open>
  \<^verbatim>\<open>re.search(r'Only (\d+) API calls? per minute', error_message)\<close>: the leftmost
  position where the pattern matches. After \<^verbatim>\<open>\d+\<close> comes a space and after
  \<^verbatim>\<open>calls?\<close> comes a space, so the greedy choices are the only ones that can succeed:
  the whole run of digits, and the \<^verbatim>\<open>s\<close> when it is there.
\<close>

definition is_digit :: "char \<Rightarrow> bool" where
  "is_digit c = (48 \<le> (of_char c :: nat) \<and> (of_char c :: nat) \<le> 57)"

definition digit_val :: "char \<Rightarrow> nat" where
  "digit_val c = (of_char c :: nat) - 48"

definition int_of_digits :: "string \<Rightarrow> nat" where
  "int_of_digits ds = foldl (\<lambda>acc c. 10 * acc + digit_val c) 0 ds"

definition match_here :: "string \<Rightarrow> nat option" where
  "match_here s =
     (if starts_with ''Only '' s then
        let r = drop 5 s;
            ds = takeWhile is_digit r;
            r1 = dropWhile is_digit r
        in if ds = [] then None
           else if starts_with '' API call'' r1 then
             let r2 = drop 9 r1
             in if starts_with ''s per minute'' r2 \<or> starts_with '' per minute'' r2
                then Some (int_of_digits ds) else None
           else None
      else None)"

fun re_search :: "string \<Rightarrow> nat option" where
  "re_search [] = None"
| "re_search (c # cs) =
     (case match_here (c # cs) of Some n \<Rightarrow> Some n | None \<Rightarrow> re_search cs)"

definition update_rate_limit_from_error :: "RateLimiter \<Rightarrow> string \<Rightarrow> string \<Rightarrow> RateLimiter" where
  "update_rate_limit_from_error rl endpoint error_message =
     (case re_search error_message of
        Some calls_per_minute \<Rightarrow>
          let endpoint_lower = lower endpoint
          in rl\<lparr>rate_limits := (rate_limits rl)(endpoint_lower \<mapsto> calls_per_minute)\<rparr>
      | None \<Rightarrow> rl)"

section \<open>api_client.py: the undecorated call_endpoint\<close>

text \<open>
  The HTTP transport is outside the repository: \<open>http_post url body history\<close> is what
  the remote service answers to a request, given the trace so far, and how long the
  round trip takes. The schema file \<^verbatim>\<open>api_schema_complete.json\<close> is data the client
  loads; its \<^verbatim>\<open>endpoints\<close> table is a field of the client.
\<close>

datatype http_result = HttpJson pyval | HttpStatusError nat | HttpFailure string

type_synonym transport = "string \<Rightarrow> params \<Rightarrow> event list \<Rightarrow> http_result \<times> real"

record SkuVaultClient =
  auth_tokens :: "(string \<times> string) option"
  api_schema :: "string \<rightharpoonup> (string \<times> string) list"

fun str_of_nat :: "nat \<Rightarrow> string" where
  "str_of_nat n =
     (if n < 10 then [''0123456789'' ! n]
      else str_of_nat (n div 10) @ [''0123456789'' ! (n mod 10)])"

declare str_of_nat.simps [simp del]

definition call_endpoint_raw :: "transport \<Rightarrow> SkuVaultClient \<Rightarrow> string \<Rightarrow> params \<Rightarrow> world \<Rightarrow> (py_error + pyval) \<times> world" where
  "call_endpoint_raw http_post self endpoint_name kwargs w =
     (case api_schema self (lower endpoint_name) of
        None \<Rightarrow> (Inl (SkuVaultAPIError (''Unknown endpoint: '' @ endpoint_name) None), w)
      | Some endpoint_info \<Rightarrow>
          if endpoint_info = []
          then (Inl (SkuVaultAPIError (''Unknown endpoint: '' @ endpoint_name) None), w)
          else
            let category = (case dict_get endpoint_info ''category'' of
                              Some c \<Rightarrow> c | None \<Rightarrow> ''general'');
                endpoint_path0 = (case dict_get endpoint_info ''url'' of
                                    Some u \<Rightarrow> u | None \<Rightarrow> ''/'' @ endpoint_name);
                endpoint_path = (if starts_with ''/'' endpoint_path0
                                 then drop 1 endpoint_path0 else endpoint_path0);
                url = ''/'' @ category @ ''/'' @ endpoint_path
            in case auth_tokens self of
                 None \<Rightarrow>
                   (Inl (SkuVaultAPIError ''Authentication required. Call authenticate() first.'' None), w)
               | Some (tenant_token, user_token) \<Rightarrow>
                   let request_data =
                         foldl (\<lambda>d (k, v). dict_set d k v)
                           [(''TenantToken'', PStr tenant_token), (''UserToken'', PStr user_token)]
                           kwargs;
                       (response, latency) = http_post url request_data (trace w);
                       w1 = w\<lparr>clock := clock w + max 0 latency,
                              trace := trace w @ [HttpPost url request_data]\<rparr>
                   in case response of
                        HttpJson v \<Rightarrow> (Inr v, w1)
                      | HttpStatusError code \<Rightarrow>
                          (Inl (SkuVaultAPIError (''HTTP '' @ str_of_nat code @ '' error'')
                                  (Some (int code))), w1)
                      | HttpFailure msg \<Rightarrow>
                          (Inl (SkuVaultAPIError (''Request failed: '' @ msg) None), w1))"

section \<open>The decorators with_cache and with_rate_limit\<close>

definition with_cache ::
  "pylib \<Rightarrow> (string \<Rightarrow> params \<Rightarrow> world \<Rightarrow> (py_error + pyval) \<times> world) \<Rightarrow>
   string \<Rightarrow> params \<Rightarrow> SimpleCache \<times> world \<Rightarrow> (py_error + pyval) \<times> SimpleCache \<times> world" where
  "with_cache L func endpoint_name kwargs cw =
     (case cw of (c, w) \<Rightarrow>
        let (cached_value, c1) = cache_get L c endpoint_name kwargs (clock w)
        in if cached_value \<noteq> PNone then (Inr cached_value, c1, w)
           else
             case func endpoint_name kwargs w of
               (Inl e, w1) \<Rightarrow> (Inl e, c1, w1)
             | (Inr result, w1) \<Rightarrow>
                 (Inr result,
                  (if \<not> is_error_value result
                   then cache_set L c1 endpoint_name kwargs result None (clock w1) else c1),
                  w1))"

text \<open>
  \<^verbatim>\<open>float(error_msg.split("Retry after")[1].split()[0])\<close> inside \<^verbatim>\<open>try: ... except: pass\<close>:
  the text between the first and the second occurrence of the separator, its first
  whitespace-delimited token, and \<^verbatim>\<open>None\<close> when anything raises.
\<close>

fun split_first :: "string \<Rightarrow> string \<Rightarrow> (string \<times> string) option" where
  "split_first sep [] = None"
| "split_first sep (c # cs) =
     (if starts_with sep (c # cs) then Some ([], drop (length sep) (c # cs))
      else case split_first sep cs of
             Some (before, after) \<Rightarrow> Some (c # before, after)
           | None \<Rightarrow> None)"

definition is_space :: "char \<Rightarrow> bool" where
  "is_space c =
     ((9 \<le> (of_char c :: nat) \<and> (of_char c :: nat) \<le> 13)
      \<or> (28 \<le> (of_char c :: nat) \<and> (of_char c :: nat) \<le> 32))"

definition parse_retry_after :: "pylib \<Rightarrow> string \<Rightarrow> real option" where
  "parse_retry_after L error_msg =
     (if str_contains ''Retry after'' error_msg then
        case split_first ''Retry after'' error_msg of
          None \<Rightarrow> None
        | Some (before, after) \<Rightarrow>
            let piece = (case split_first ''Retry after'' after of
                           Some (b, a) \<Rightarrow> b | None \<Rightarrow> after);
                token = takeWhile (\<lambda>c. \<not> is_space c) (dropWhile is_space piece)
            in if token = [] then None else py_float L token
      else None)"

text \<open>
  The retry loop of \<^verbatim>\<open>with_rate_limit\<close>. \<open>last_result\<close> is the variable \<^verbatim>\<open>result\<close>, read
  by the \<^verbatim>\<open>return result\<close> that follows the loop.
\<close>

function rate_limit_loop ::
  "pylib \<Rightarrow> (string \<Rightarrow> params \<Rightarrow> 'a \<times> world \<Rightarrow> (py_error + pyval) \<times> 'a \<times> world) \<Rightarrow>
   string \<Rightarrow> params \<Rightarrow> nat \<Rightarrow> pyval option \<Rightarrow> RateLimiter \<times> 'a \<times> world \<Rightarrow>
   (py_error + pyval) \<times> RateLimiter \<times> 'a \<times> world" where
  "rate_limit_loop L func endpoint_name kwargs retry_count last_result (rl, a, w) =
     (if retry_count < 3 then
        case wait_if_needed rl endpoint_name w of
          (Inl e, rl1, w1) \<Rightarrow> (Inl e, rl1, a, w1)
        | (Inr u, rl1, w1) \<Rightarrow>
            (case func endpoint_name kwargs (a, w1) of
               (Inl e, a2, w2) \<Rightarrow> (Inl e, rl1, a2, w2)
             | (Inr result, a2, w2) \<Rightarrow>
                 let error_msg = (case result of
                                    PDict kvs \<Rightarrow>
                                      (case dict_get kvs ''error'' of
                                         Some ev \<Rightarrow> py_str L ev | None \<Rightarrow> py_str L (PStr []))
                                  | _ \<Rightarrow> [])
                 in if is_error_value result
                       \<and> (str_contains ''429'' error_msg \<or> str_contains ''rate limit'' (lower error_msg))
                    then
                      let rl2 = update_rate_limit_from_error rl1 endpoint_name error_msg;
                          retry_after = parse_retry_after L error_msg;
                          (wait_time, rl3) = handle_rate_limit_error rl2 endpoint_name retry_after (clock w2)
                      in if retry_count < 2
                         then rate_limit_loop L func endpoint_name kwargs (retry_count + 1) (Some result)
                                (rl3, a2, sleep wait_time w2)
                         else (Inr result, reset_retry_count rl3 endpoint_name, a2, w2)
                    else (Inr result, reset_retry_count rl1 endpoint_name, a2, w2))
      else
        case last_result of
          Some result \<Rightarrow> (Inr result, rl, a, w)
        | None \<Rightarrow> (Inl UnboundLocalError, rl, a, w))"
  by pat_completeness auto
termination
  by (relation "measure (\<lambda>(L, func, endpoint_name, kwargs, retry_count, last_result, st). 3 - retry_count)") auto

declare rate_limit_loop.simps [simp del]

text \<open>
  \<^verbatim>\<open>SkuVaultClient.call_endpoint\<close> as decorated in the source:
  \<^verbatim>\<open>@with_rate_limit(global_rate_limiter)\<close> is applied to the result of
  \<^verbatim>\<open>@with_cache(global_cache)\<close>, so the rate-limit wrapper is the outer one.
\<close>

definition call_endpoint ::
  "pylib \<Rightarrow> transport \<Rightarrow> SkuVaultClient \<Rightarrow> string \<Rightarrow> params \<Rightarrow>
   RateLimiter \<times> SimpleCache \<times> world \<Rightarrow> (py_error + pyval) \<times> RateLimiter \<times> SimpleCache \<times> world" where
  "call_endpoint L http_post self endpoint_name kwargs st =
     rate_limit_loop L (with_cache L (call_endpoint_raw http_post self)) endpoint_name kwargs 0 None st"

section \<open>request_queue.py: RequestQueue\<close>

record QueuedRequest =
  req_id :: string
  req_endpoint :: string
  req_params :: params
  callback :: bool
  priority :: int
  created_at :: real

text \<open>An entry of \<^verbatim>\<open>self.results\<close>: status, payload or error text, completion time.\<close>

datatype request_result = ResultSuccess pyval real | ResultError string real

text \<open>
  The queue is an \<^verbatim>\<open>asyncio.PriorityQueue\<close> of tuples \<^verbatim>\<open>(-priority, created_at, request)\<close>:
  a list kept as a binary heap by \<^verbatim>\<open>heapq\<close>. Tuples are compared element by element;
  when the first two elements are equal the requests themselves are compared, and the
  class \<^verbatim>\<open>QueuedRequest\<close> defines equality and no order, so that \<^verbatim>\<open><\<close> raises \<^verbatim>\<open>TypeError\<close>.
\<close>

type_synonym entry = "int \<times> real \<times> QueuedRequest"

definition queue_entry :: "QueuedRequest \<Rightarrow> entry" where
  "queue_entry r = (- priority r, created_at r, r)"

definition entry_lt :: "entry \<Rightarrow> entry \<Rightarrow> py_error + bool" where
  "entry_lt e1 e2 =
     (if fst e1 \<noteq> fst e2 then Inr (fst e1 < fst e2)
      else if fst (snd e1) \<noteq> fst (snd e2) then Inr (fst (snd e1) < fst (snd e2))
      else if snd (snd e1) = snd (snd e2) then Inr False
      else Inl (TypeError ''< not supported between instances of QueuedRequest and QueuedRequest''))"

text \<open>
  \<^verbatim>\<open>heapq.heappush\<close> and \<^verbatim>\<open>heapq.heappop\<close> as CPython implements them, on the list in
  place. A comparison that raises leaves the list as it is at that moment: the new item
  stays in the list after a failed push, and the item taken from the root is lost after
  a failed pop.
\<close>

definition swap :: "'a list \<Rightarrow> nat \<Rightarrow> nat \<Rightarrow> 'a list" where
  "swap xs i j = xs[i := xs ! j, j := xs ! i]"

function siftdown :: "entry list \<Rightarrow> nat \<Rightarrow> nat \<Rightarrow> py_error option \<times> entry list" where
  "siftdown heap startpos pos =
     (if startpos < pos then
        let parentpos = (pos - 1) div 2
        in case entry_lt (heap ! pos) (heap ! parentpos) of
             Inl e \<Rightarrow> (Some e, heap)
           | Inr lt \<Rightarrow>
               if lt then siftdown (swap heap parentpos pos) startpos parentpos
               else (None, heap)
      else (None, heap))"
  by pat_completeness auto
termination
  by (relation "measure (\<lambda>(heap, startpos, pos). pos)") auto

declare siftdown.simps [simp del]

function siftup_loop :: "entry list \<Rightarrow> nat \<Rightarrow> py_error option \<times> entry list \<times> nat" where
  "siftup_loop heap pos =
     (if pos < length heap div 2 then
        let childpos = 2 * pos + 1
        in if childpos + 1 < length heap then
             case entry_lt (heap ! childpos) (heap ! (childpos + 1)) of
               Inl e \<Rightarrow> (Some e, heap, pos)
             | Inr lt \<Rightarrow>
                 let smaller = (if lt then childpos else childpos + 1)
                 in siftup_loop (swap heap smaller pos) smaller
           else siftup_loop (swap heap childpos pos) childpos
      else (None, heap, pos))"
  by pat_completeness auto
termination
  by (relation "measure (\<lambda>(heap, pos). length heap - pos)") (auto simp: swap_def)

declare siftup_loop.simps [simp del]

definition siftup :: "entry list \<Rightarrow> nat \<Rightarrow> py_error option \<times> entry list" where
  "siftup heap pos =
     (case siftup_loop heap pos of
        (Some e, heap1, pos1) \<Rightarrow> (Some e, heap1)
      | (None, heap1, pos1) \<Rightarrow> siftdown heap1 pos pos1)"

definition heappush :: "entry list \<Rightarrow> entry \<Rightarrow> py_error option \<times> entry list" where
  "heappush heap item = siftdown (heap @ [item]) 0 (length heap)"

text \<open>\<open>heappop\<close> is called on a list that is not empty: \<^verbatim>\<open>get\<close> waits while the queue is empty.\<close>

definition heappop :: "entry list \<Rightarrow> (py_error + entry) \<times> entry list" where
  "heappop heap =
     (let lastelt = last heap;
          rest = butlast heap
      in if rest = [] then (Inr lastelt, rest)
         else
           let returnitem = rest ! 0
           in case siftup (rest[0 := lastelt]) 0 of
                (Some e, heap1) \<Rightarrow> (Inl e, heap1)
              | (None, heap1) \<Rightarrow> (Inr returnitem, heap1))"

text \<open>
  The event loop runs one coroutine at a time and switches only at an \<^verbatim>\<open>await\<close>, so the
  code between two awaits is one atomic step. The worker task \<^verbatim>\<open>_process_queue\<close> does not
  exist yet, or has been created and not yet run, or is at the loop head, in
  \<^verbatim>\<open>asyncio.sleep(0.1)\<close> or in \<^verbatim>\<open>wait_for(self.queue.get(), 1.0)\<close>, or has ended (it left
  the loop or was cancelled), or has ended with an exception. A \<^verbatim>\<open>_process_request\<close>
  task is in \<^verbatim>\<open>client.call_endpoint\<close> or in its callback.
\<close>

datatype worker_at =
    NoTask | Starting | LoopHead | Sleeping | AwaitingGet | Finished | Crashed py_error

datatype task_at = Calling | InCallback

record RequestQueue =
  queue :: "entry list"
  max_concurrent :: int
  active_requests :: int
  results :: "string \<rightharpoonup> request_result"
  processing :: bool
  worker :: worker_at
  tasks :: "(QueuedRequest \<times> task_at) list"

definition RequestQueue_init :: "int \<Rightarrow> RequestQueue" where
  "RequestQueue_init mc =
     \<lparr> queue = [], max_concurrent = mc, active_requests = 0, results = Map.empty,
       processing = False, worker = NoTask, tasks = [] \<rparr>"

text \<open>
  The atomic steps. What the step does not decide itself (which request arrives, what
  the remote call returns and when) is carried by the action.
\<close>

datatype action =
    AddRequest QueuedRequest
  | StopProcessing
  | WorkerStart
  | WorkerExit
  | WorkerPoll real
  | WorkerWait
  | WorkerWake
  | WorkerDispatch
  | WorkerTimeout
  | CallSucceeded QueuedRequest pyval real
  | CallFailed QueuedRequest string real
  | CallbackDone QueuedRequest

text \<open>
  The first statement of \<^verbatim>\<open>_process_queue\<close> is \<^verbatim>\<open>from ..api_client import get_client\<close>,
  executed when the task first runs. Whether the module \<^verbatim>\<open>api_client\<close> provides that name
  is the parameter \<open>importable\<close> of the step function: if it does not, the statement
  raises \<^verbatim>\<open>ImportError\<close> and the worker task ends there, with \<^verbatim>\<open>processing\<close> still set.
  The module as it is in the repository defines \<^verbatim>\<open>SkuVaultAPIError\<close> and
  \<^verbatim>\<open>SkuVaultClient\<close> and no \<^verbatim>\<open>get_client\<close>.
\<close>

definition api_client_defines_get_client :: bool where
  "api_client_defines_get_client = False"

text \<open>
  A step returns the exception that the public operation raises to its caller, if any,
  and the new state; \<open>None\<close> when the step cannot be taken in that state.
  \<^item> \<^verbatim>\<open>add_request\<close>: the \<^verbatim>\<open>put\<close> pushes the tuple on the heap; when the push raises, the
    exception leaves \<^verbatim>\<open>add_request\<close> before \<^verbatim>\<open>start_processing\<close> is reached.
  \<^item> \<^verbatim>\<open>stop_processing\<close>: clears the flag, cancels the task and awaits it; awaiting a
    task that has ended with an exception raises that exception again.
  \<^item> An exception of \<^verbatim>\<open>queue.get()\<close> inside the worker is caught by
    \<^verbatim>\<open>except Exception\<close> and logged, and the loop goes on.
  \<^item> The wait for an item ends with a timeout when no item has been handed over within a
    second.
\<close>

fun step :: "bool \<Rightarrow> RequestQueue \<Rightarrow> action \<Rightarrow> (py_error option \<times> RequestQueue) option" where
  "step importable s (AddRequest r) =
     (case heappush (queue s) (queue_entry r) of
        (Some e, heap1) \<Rightarrow> Some (Some e, s\<lparr>queue := heap1\<rparr>)
      | (None, heap1) \<Rightarrow>
          Some (None, s\<lparr>queue := heap1,
                        processing := True,
                        worker := (if processing s then worker s else Starting)\<rparr>))"
| "step importable s StopProcessing =
     (case worker s of
        NoTask \<Rightarrow> Some (None, s\<lparr>processing := False\<rparr>)
      | Finished \<Rightarrow> Some (None, s\<lparr>processing := False\<rparr>)
      | Crashed e \<Rightarrow> Some (Some e, s\<lparr>processing := False\<rparr>)
      | _ \<Rightarrow> Some (None, s\<lparr>processing := False, worker := Finished\<rparr>))"
| "step importable s WorkerStart =
     (if worker s = Starting
      then Some (None, s\<lparr>worker := (if importable then LoopHead
                                      else Crashed (ImportError ''cannot import name get_client from api_client''))\<rparr>)
      else None)"
| "step importable s WorkerExit =
     (if worker s = LoopHead \<and> \<not> processing s
      then Some (None, s\<lparr>worker := Finished\<rparr>) else None)"
| "step importable s (WorkerPoll d) =
     (if worker s = LoopHead \<and> processing s \<and> active_requests s \<ge> max_concurrent s \<and> d = 1 / 10
      then Some (None, s\<lparr>worker := Sleeping\<rparr>) else None)"
| "step importable s WorkerWake =
     (if worker s = Sleeping then Some (None, s\<lparr>worker := LoopHead\<rparr>) else None)"
| "step importable s WorkerWait =
     (if worker s = LoopHead \<and> processing s \<and> \<not> active_requests s \<ge> max_concurrent s
      then Some (None, s\<lparr>worker := AwaitingGet\<rparr>) else None)"
| "step importable s WorkerDispatch =
     (if worker s = AwaitingGet \<and> queue s \<noteq> [] then
        case heappop (queue s) of
          (Inl e, heap1) \<Rightarrow> Some (None, s\<lparr>queue := heap1, worker := LoopHead\<rparr>)
        | (Inr item, heap1) \<Rightarrow>
            Some (None, s\<lparr>queue := heap1,
                          active_requests := active_requests s + 1,
                          tasks := tasks s @ [(snd (snd item), Calling)],
                          worker := LoopHead\<rparr>)
      else None)"
| "step importable s WorkerTimeout =
     (if worker s = AwaitingGet
      then Some (None, s\<lparr>worker := LoopHead\<rparr>) else None)"
| "step importable s (CallSucceeded r v t) =
     (if (r, Calling) \<in> set (tasks s) then
        if callback r
        then Some (None, s\<lparr>results := (results s)(req_id r \<mapsto> ResultSuccess v t),
                           tasks := remove1 (r, Calling) (tasks s) @ [(r, InCallback)]\<rparr>)
        else Some (None, s\<lparr>results := (results s)(req_id r \<mapsto> ResultSuccess v t),
                           active_requests := active_requests s - 1,
                           tasks := remove1 (r, Calling) (tasks s)\<rparr>)
      else None)"
| "step importable s (CallFailed r e t) =
     (if (r, Calling) \<in> set (tasks s)
      then Some (None, s\<lparr>results := (results s)(req_id r \<mapsto> ResultError e t),
                         active_requests := active_requests s - 1,
                         tasks := remove1 (r, Calling) (tasks s)\<rparr>)
      else None)"
| "step importable s (CallbackDone r) =
     (if (r, InCallback) \<in> set (tasks s)
      then Some (None, s\<lparr>active_requests := active_requests s - 1,
                         tasks := remove1 (r, InCallback) (tasks s)\<rparr>)
      else None)"

text \<open>A sequence of steps, with the exceptions raised to the callers on the way.\<close>

fun run :: "bool \<Rightarrow> RequestQueue \<Rightarrow> action list \<Rightarrow> (py_error list \<times> RequestQueue) option" where
  "run importable s [] = Some ([], s)"
| "run importable s (a # as) =
     (case step importable s a of
        None \<Rightarrow> None
      | Some (err, s1) \<Rightarrow>
          (case run importable s1 as of
             None \<Rightarrow> None
           | Some (errs, s2) \<Rightarrow> Some ((case err of None \<Rightarrow> [] | Some e \<Rightarrow> [e]) @ errs, s2)))"




section \<open>Auxiliary notions for the statements\<close>

text \<open>A sequence of calls to the public operations of the cache.\<close>

datatype cache_op =
    OpSet string params pyval "int option" real
  | OpGet string params real
  | OpInvalidate "string option"

fun apply_cache_op :: "pylib \<Rightarrow> SimpleCache \<Rightarrow> cache_op \<Rightarrow> SimpleCache" where
  "apply_cache_op L c (OpSet e ps v ttl t) = cache_set L c e ps v ttl t"
| "apply_cache_op L c (OpGet e ps t) = snd (cache_get L c e ps t)"
| "apply_cache_op L c (OpInvalidate p) = snd (invalidate c p)"

definition no_error_entries :: "cache_store \<Rightarrow> bool" where
  "no_error_entries kvs = list_all (\<lambda>e. \<not> is_error_value (fst (snd e))) kvs"

text \<open>
  The library functions at the inputs of the concrete examples below: the MD5 digests
  of three key strings, \<^verbatim>\<open>json.dumps({}, sort_keys=True)\<close>, \<^verbatim>\<open>str\<close> of a string, and
  \<^verbatim>\<open>float\<close> of \<^verbatim>\<open>"0"\<close>.
\<close>

definition http_requests :: "event list \<Rightarrow> event list" where
  "http_requests evs = filter (\<lambda>ev. case ev of HttpPost url body \<Rightarrow> True | Sleep d \<Rightarrow> False) evs"

definition example_lib :: pylib where
  "example_lib =
     \<lparr> md5_hexdigest = (\<lambda>s. case map_of
           [(''getwarehouses:{}'', ''44d65a3e5bdabce9cdb6f0468ae15eea''),
            (''getproducts:{}'', ''6724f53b5d874fbfbc57177410a861a6''),
            (''getinventorybylocation:{}'', ''78c0461736117af121747f44dea6fe61'')] s of
             Some h \<Rightarrow> h | None \<Rightarrow> []),
       json_dumps = (\<lambda>ps. if ps = [] then ''{}'' else []),
       py_str = (\<lambda>v. case v of PStr s \<Rightarrow> s | _ \<Rightarrow> []),
       py_float = (\<lambda>s. if s = ''0'' then Some 0 else None) \<rparr>"

text \<open>
  A client that holds credentials and knows the endpoint \<open>getwarehouses\<close>, and a remote
  service that answers every request at once with an empty warehouse list.
\<close>

definition example_client :: SkuVaultClient where
  "example_client =
     \<lparr> auth_tokens = Some (''tenant'', ''user''),
       api_schema = [''getwarehouses'' \<mapsto> [(''category'', ''inventory''), (''url'', ''/getWarehouses'')]] \<rparr>"

definition example_transport :: transport where
  "example_transport url body history = (HttpJson (PDict [(''Warehouses'', PList [])]), 0)"

text \<open>A remote service that answers every request with a rate-limit error.\<close>

definition rate_limited_transport :: transport where
  "rate_limited_transport url body history =
     (HttpJson (PDict [(''error'', PStr ''429 Too Many Requests'')]), 0)"

text \<open>
  The retry count of the class of an endpoint (\<^verbatim>\<open>retry_counts.get(rate_key, 0)\<close>) and the
  exponential backoff after \<open>n\<close> consecutive rate-limit errors.
\<close>

definition current_retry_count :: "RateLimiter \<Rightarrow> string \<Rightarrow> nat" where
  "current_retry_count rl endpoint =
     (case retry_counts rl (get_rate_limit_key rl endpoint) of Some c \<Rightarrow> c | None \<Rightarrow> 0)"

definition backoff :: "nat \<Rightarrow> real" where
  "backoff n = real (min (2 ^ n) 300)"

text \<open>
  A sequence of calls to the operations of the rate limiter, with the passing of time
  between them, and the relation between its tables that every such sequence keeps.
\<close>

datatype limiter_op =
    LWait string
  | LHandle string "real option"
  | LReset string
  | LUpdate string string
  | LTick real

fun apply_limiter_op :: "RateLimiter \<times> world \<Rightarrow> limiter_op \<Rightarrow> RateLimiter \<times> world" where
  "apply_limiter_op (rl, w) (LWait e) = snd (wait_if_needed rl e w)"
| "apply_limiter_op (rl, w) (LHandle e ra) = (snd (handle_rate_limit_error rl e ra (clock w)), w)"
| "apply_limiter_op (rl, w) (LReset e) = (reset_retry_count rl e, w)"
| "apply_limiter_op (rl, w) (LUpdate e msg) = (update_rate_limit_from_error rl e msg, w)"
| "apply_limiter_op (rl, w) (LTick d) = (rl, w\<lparr>clock := clock w + max 0 d\<rparr>)"

definition limiter_inv :: "RateLimiter \<Rightarrow> bool" where
  "limiter_inv rl =
     ({''products'', ''warehouses'', ''inventory'', ''default''} \<subseteq> dom (rate_limits rl)
      \<and> dom (last_call_times rl) \<subseteq> dom (rate_limits rl)
      \<and> dom (retry_counts rl) \<subseteq> dom (rate_limits rl)
      \<and> dom (backoff_until rl) \<subseteq> dom (rate_limits rl))"

text \<open>
  The regular expression \<^verbatim>\<open>Only (\d+) API calls? per minute\<close> in words: the text \<open>s\<close>
  begins with \<open>Only\<close> and a space, a non-empty run of digits, the words \<open>API call\<close> with
  or without an \<open>s\<close>, and \<open>per minute\<close>; \<open>n\<close> is the number the digits denote.
\<close>

definition limit_pattern_at :: "string \<Rightarrow> nat \<Rightarrow> bool" where
  "limit_pattern_at s n =
     (\<exists>ds sfx post.
        s = ''Only '' @ ds @ '' API call'' @ sfx @ '' per minute'' @ post
        \<and> ds \<noteq> [] \<and> list_all is_digit ds
        \<and> (sfx = [] \<or> sfx = ''s'')
        \<and> n = int_of_digits ds)"

text \<open>
  The relation between the counter \<open>active_requests\<close> and the tasks that run, and a bulk
  load: \<open>n\<close> requests for one endpoint with the default priority, enqueued one after
  the other.
\<close>

definition queue_inv :: "RequestQueue \<Rightarrow> bool" where
  "queue_inv s =
     (active_requests s = int (length (tasks s))
      \<and> active_requests s \<le> max_concurrent s
      \<and> (worker s = AwaitingGet \<longrightarrow> active_requests s < max_concurrent s))"

definition bulk_request :: "nat \<Rightarrow> QueuedRequest" where
  "bulk_request i =
     \<lparr> req_id = str_of_nat i, req_endpoint = ''getproduct'', req_params = [],
       callback = False, priority = 5, created_at = real i \<rparr>"

definition bulk_load :: "nat \<Rightarrow> action list" where
  "bulk_load n = map (\<lambda>i. AddRequest (bulk_request i)) [0..<n]"

section \<open>Cache TTL policy\<close>

lemma lower_getproducts: "lower ''getproducts'' = ''getproducts''"
  by (simp add: lower_def lower_char_def)

lemma starts_with_iff: "starts_with p s \<longleftrightarrow> take (length p) s = p"
  by (induction p s rule: starts_with.induct) auto

lemma str_contains_iff: "str_contains p s \<longleftrightarrow> (\<exists>a b. s = a @ p @ b)"
proof (induction s)
  case Nil
  then show ?case by auto
next
  case (Cons c cs)
  show ?case
  proof
    assume "str_contains p (c # cs)"
    then consider "starts_with p (c # cs)" | "str_contains p cs" by auto
    then show "\<exists>a b. c # cs = a @ p @ b"
    proof cases
      case 1
      then have "c # cs = [] @ p @ drop (length p) (c # cs)"
        by (simp add: starts_with_iff) (metis append_take_drop_id)
      then show ?thesis by blast
    next
      case 2
      with Cons obtain a b where "cs = a @ p @ b" by blast
      then have "c # cs = (c # a) @ p @ b" by simp
      then show ?thesis by blast
    qed
  next
    assume "\<exists>a b. c # cs = a @ p @ b"
    then obtain a b where ab: "c # cs = a @ p @ b" by blast
    show "str_contains p (c # cs)"
    proof (cases a)
      case Nil
      with ab have "take (length p) (c # cs) = p" by simp
      then show ?thesis by (simp add: starts_with_iff)
    next
      case (Cons x a')
      with ab have "cs = a' @ p @ b" by simp
      with Cons.IH show ?thesis by auto
    qed
  qed
qed

lemma products_contains_product:
  "str_contains ''products'' s \<Longrightarrow> str_contains ''product'' s"
proof -
  assume "str_contains ''products'' s"
  then obtain a b where "s = a @ ''products'' @ b" by (auto simp: str_contains_iff)
  then have "s = a @ ''product'' @ (''s'' @ b)" by simp
  then show ?thesis unfolding str_contains_iff by blast
qed

text \<open>
  C2. The policy table promises 60 seconds for endpoints whose name contains
  \<open>products\<close>. The lookup returns at the first key that is a substring of the name, and
  \<open>product\<close> precedes \<open>products\<close> in the table, so \<open>getproducts\<close> resolves to 300 seconds
  and an entry set for it at time \<open>t\<close> without an explicit ttl expires at \<open>t + 300\<close>. No
  endpoint name at all resolves to 60 seconds.
\<close>

theorem C2_getproducts_ttl_is_300:
  "get_ttl global_cache ''getproducts'' = 300
   \<and> map (snd \<circ> snd) (cache (cache_set L global_cache ''getproducts'' [] (PList []) None t)) = [t + 300]
   \<and> get_ttl global_cache endpoint \<noteq> 60"
proof -
  have a: "get_ttl global_cache ''getproducts'' = 300"
    by (simp add: get_ttl_def global_cache_def SimpleCache_init_def lower_getproducts)
  have b: "map (snd \<circ> snd) (cache (cache_set L global_cache ''getproducts'' [] (PList []) None t)) = [t + 300]"
    by (simp add: get_ttl_def cache_set_def global_cache_def SimpleCache_init_def lower_getproducts)
  have c: "get_ttl global_cache endpoint \<noteq> 60"
    using products_contains_product [of "lower endpoint"]
    by (auto simp: get_ttl_def global_cache_def SimpleCache_init_def)
  from a b c show ?thesis by simp
qed

section \<open>Cache invalidation\<close>

lemma str_contains_empty: "str_contains [] s"
  by (cases s) simp_all

lemma del_all_skip:
  "k \<notin> set ks \<Longrightarrow> del_all ((k, v) # kvs) ks = (k, v) # del_all kvs ks"
  by (induction ks arbitrary: kvs) auto

lemma del_all_filter:
  "del_all kvs (filter P (map fst kvs)) = filter (\<lambda>e. \<not> P (fst e)) kvs"
proof (induction kvs)
  case Nil
  then show ?case by simp
next
  case (Cons e kvs)
  obtain k v where e: "e = (k, v)" by (cases e)
  show ?case
  proof (cases "P k")
    case True
    with Cons e show ?thesis by simp
  next
    case False
    then have "k \<notin> set (filter P (map fst kvs))" by auto
    with Cons e False show ?thesis by (simp add: del_all_skip)
  qed
qed

lemma invalidate_pattern:
  "invalidate c (Some p) =
     (length (filter (\<lambda>e. str_contains (lower p) (lower (fst e))) (cache c)),
      c\<lparr>cache := filter (\<lambda>e. \<not> str_contains (lower p) (lower (fst e))) (cache c)\<rparr>)"
proof (cases "p = []")
  case True
  then show ?thesis
    by (simp add: invalidate_def lower_def str_contains_empty)
next
  case False
  have "length (filter (\<lambda>key. str_contains (lower p) (lower key)) (map fst (cache c)))
        = length (filter (\<lambda>e. str_contains (lower p) (lower (fst e))) (cache c))"
    by (simp add: filter_map comp_def)
  with False show ?thesis
    by (simp add: invalidate_def dict_keys_def Let_def del_all_filter)
qed

text \<open>
  C5. \<open>invalidate (Some p)\<close> keeps exactly the entries whose key does not contain \<open>p\<close>
  (both lowercased) and returns the number of entries whose key does; the count is the
  number of entries removed; a second call with the same pattern returns 0; and
  \<open>invalidate None\<close> empties the cache and returns the former number of entries.
\<close>

theorem C5_invalidate_exact:
  "invalidate c (Some p) =
     (length (filter (\<lambda>e. str_contains (lower p) (lower (fst e))) (cache c)),
      c\<lparr>cache := filter (\<lambda>e. \<not> str_contains (lower p) (lower (fst e))) (cache c)\<rparr>)
   \<and> length (cache c) = fst (invalidate c (Some p)) + length (cache (snd (invalidate c (Some p))))
   \<and> fst (invalidate (snd (invalidate c (Some p))) (Some p)) = 0
   \<and> invalidate c None = (length (cache c), c\<lparr>cache := []\<rparr>)"
proof -
  have a: "length (cache c) = fst (invalidate c (Some p)) + length (cache (snd (invalidate c (Some p))))"
    by (simp add: invalidate_pattern sum_length_filter_compl)
  have b: "fst (invalidate (snd (invalidate c (Some p))) (Some p)) = 0"
    by (simp add: invalidate_pattern)
  have c: "invalidate c None = (length (cache c), c\<lparr>cache := []\<rparr>)"
    by (simp add: invalidate_def)
  from invalidate_pattern a b c show ?thesis by blast
qed

section \<open>Errors are never cached\<close>

lemma no_error_dict_set:
  "no_error_entries kvs \<Longrightarrow> \<not> is_error_value v \<Longrightarrow> no_error_entries (dict_set kvs k (v, t))"
  by (induction kvs) (auto simp: no_error_entries_def)

lemma no_error_dict_del:
  "no_error_entries kvs \<Longrightarrow> no_error_entries (dict_del kvs k)"
  by (induction kvs) (auto simp: no_error_entries_def)

lemma no_error_del_all:
  "no_error_entries kvs \<Longrightarrow> no_error_entries (del_all kvs ks)"
  by (induction ks arbitrary: kvs) (auto simp: no_error_dict_del)

lemma no_error_cache_set:
  "no_error_entries (cache c) \<Longrightarrow> no_error_entries (cache (cache_set L c e ps v ttl t))"
  by (simp add: cache_set_def Let_def no_error_dict_set)

lemma no_error_cache_get:
  "no_error_entries (cache c) \<Longrightarrow> no_error_entries (cache (snd (cache_get L c e ps t)))"
  by (auto simp: cache_get_def Let_def no_error_dict_del split: option.splits)

lemma no_error_invalidate:
  "no_error_entries (cache c) \<Longrightarrow> no_error_entries (cache (snd (invalidate c p)))"
proof (cases p)
  case None
  then show ?thesis by (simp add: invalidate_def no_error_entries_def)
next
  case (Some x)
  assume "no_error_entries (cache c)"
  then have "no_error_entries (del_all (cache c) ks)" for ks
    by (rule no_error_del_all)
  with Some show ?thesis
    by (simp add: invalidate_def Let_def) (simp add: no_error_entries_def)
qed

lemma no_error_apply:
  "no_error_entries (cache c) \<Longrightarrow> no_error_entries (cache (apply_cache_op L c op))"
  by (cases op) (simp_all add: no_error_cache_set no_error_cache_get no_error_invalidate)

lemma no_error_foldl:
  "no_error_entries (cache c) \<Longrightarrow> no_error_entries (cache (foldl (apply_cache_op L) c ops))"
  by (induction ops arbitrary: c) (simp_all add: no_error_apply)

lemma no_error_dict_get:
  "no_error_entries kvs \<Longrightarrow> dict_get kvs k = Some (v, t) \<Longrightarrow> \<not> is_error_value v"
  by (induction kvs) (auto simp: no_error_entries_def split: if_splits)

lemma cache_get_not_error:
  "no_error_entries (cache c) \<Longrightarrow> \<not> is_error_value (fst (cache_get L c e ps t))"
  by (auto simp: cache_get_def Let_def split: option.splits dest: no_error_dict_get)

text \<open>
  C6, as the claim states it, fails: a \<open>set\<close> with an error value is a no-op, so an
  unexpired entry stored earlier under the same endpoint and parameters is still there
  and the following \<open>get\<close> hits. Here a warehouse list is cached at time 0, an error
  value is offered at time 1, and the \<open>get\<close> at time 2 returns the warehouse list.
\<close>

theorem C6_get_after_error_set_hits:
  "is_error_value (PDict [(''error'', PStr ''Service unavailable'')])
   \<and> fst (cache_get example_lib
        (cache_set example_lib
           (cache_set example_lib global_cache ''getwarehouses'' []
              (PDict [(''Warehouses'', PList [])]) None 0)
           ''getwarehouses'' [] (PDict [(''error'', PStr ''Service unavailable'')]) None 1)
        ''getwarehouses'' [] 2)
     = PDict [(''Warehouses'', PList [])]"
  by (simp add: cache_get_def cache_set_def get_cache_key_def example_lib_def global_cache_def
      SimpleCache_init_def get_ttl_def lower_def lower_char_def)

text \<open>
  C6, amended. After any sequence of \<open>set\<close>, \<open>get\<close> and \<open>invalidate\<close> calls on a new
  cache no entry holds an error value, and \<open>get\<close> never returns one. A \<open>set\<close> whose
  value is an error leaves the cache as it was, so the following \<open>get\<close> returns what it
  would have returned without the \<open>set\<close>; it misses when the key had no entry.
\<close>

theorem C6_errors_never_cached:
  "no_error_entries (cache (foldl (apply_cache_op L) (SimpleCache_init d) ops))
   \<and> \<not> is_error_value (fst (cache_get L (foldl (apply_cache_op L) (SimpleCache_init d) ops) e ps t))
   \<and> (is_error_value v \<longrightarrow>
        cache_set L c e ps v ttl t = c
        \<and> cache_get L (cache_set L c e ps v ttl t) e ps t' = cache_get L c e ps t'
        \<and> (dict_get (cache c) (get_cache_key L e ps) = None \<longrightarrow>
             fst (cache_get L (cache_set L c e ps v ttl t) e ps t') = PNone))"
proof -
  have init: "no_error_entries (cache (SimpleCache_init d))"
    by (simp add: SimpleCache_init_def no_error_entries_def)
  have inv: "no_error_entries (cache (foldl (apply_cache_op L) (SimpleCache_init d) ops))"
    using init by (rule no_error_foldl)
  have noop: "is_error_value v \<Longrightarrow> cache_set L c e ps v ttl t = c"
    by (simp add: cache_set_def)
  have miss: "dict_get (cache c) (get_cache_key L e ps) = None \<Longrightarrow> fst (cache_get L c e ps t') = PNone"
    by (simp add: cache_get_def)
  show ?thesis
    using inv cache_get_not_error [OF inv] noop miss by simp
qed

theorem C6_errors_never_cached_witness:
  "is_error_value (PDict [(''error'', PStr ''Service unavailable'')])
   \<and> dict_get (cache (SimpleCache_init 300)) (get_cache_key example_lib ''getwarehouses'' []) = None
   \<and> cache_set example_lib (SimpleCache_init 300) ''getwarehouses'' []
        (PDict [(''error'', PStr ''Service unavailable'')]) None 1 = SimpleCache_init 300
   \<and> fst (cache_get example_lib
        (cache_set example_lib (SimpleCache_init 300) ''getwarehouses'' []
           (PDict [(''error'', PStr ''Service unavailable'')]) None 1)
        ''getwarehouses'' [] 2) = PNone
   \<and> no_error_entries (cache (foldl (apply_cache_op example_lib) (SimpleCache_init 300)
        [OpSet ''getwarehouses'' [] (PDict [(''error'', PStr ''Service unavailable'')]) None 1,
         OpSet ''getproducts'' [] (PDict [(''Products'', PList [])]) None 2,
         OpGet ''getproducts'' [] 3,
         OpInvalidate (Some ''product'')]))"
proof -
  have err: "is_error_value (PDict [(''error'', PStr ''Service unavailable'')])"
    by simp
  have absent: "dict_get (cache (SimpleCache_init 300)) (get_cache_key example_lib ''getwarehouses'' []) = None"
    by (simp add: SimpleCache_init_def)
  show ?thesis
    using err absent
      C6_errors_never_cached [of example_lib 300
        "[OpSet ''getwarehouses'' [] (PDict [(''error'', PStr ''Service unavailable'')]) None 1,
          OpSet ''getproducts'' [] (PDict [(''Products'', PList [])]) None 2,
          OpGet ''getproducts'' [] 3,
          OpInvalidate (Some ''product'')]"
        "''getwarehouses''" "[]" 1
        "PDict [(''error'', PStr ''Service unavailable'')]"
        "SimpleCache_init 300" None 2]
    by blast
qed

section \<open>Backoff after a rate-limit error\<close>

lemma key_handle [simp]:
  "get_rate_limit_key (snd (handle_rate_limit_error rl e ra t)) e' = get_rate_limit_key rl e'"
  by (simp add: handle_rate_limit_error_def get_rate_limit_key_def Let_def)

lemma key_reset [simp]:
  "get_rate_limit_key (reset_retry_count rl e) e' = get_rate_limit_key rl e'"
  by (simp add: reset_retry_count_def get_rate_limit_key_def Let_def)

lemma handle_wait:
  "fst (handle_rate_limit_error rl e ra t) =
     (case ra of Some r \<Rightarrow> if r \<noteq> 0 then r else backoff (current_retry_count rl e + 1)
      | None \<Rightarrow> backoff (current_retry_count rl e + 1))"
  by (simp add: handle_rate_limit_error_def Let_def current_retry_count_def backoff_def split: option.splits)

lemma handle_count:
  "current_retry_count (snd (handle_rate_limit_error rl e ra t)) e = current_retry_count rl e + 1"
  by (simp add: current_retry_count_def) (simp add: handle_rate_limit_error_def Let_def)

lemma handle_backoff_until:
  "backoff_until (snd (handle_rate_limit_error rl e ra t)) (get_rate_limit_key rl e)
     = Some (t + fst (handle_rate_limit_error rl e ra t))"
  by (simp add: handle_rate_limit_error_def Let_def)

lemma reset_count: "current_retry_count (reset_retry_count rl e) e = 0"
  by (simp add: current_retry_count_def) (simp add: reset_retry_count_def Let_def)

lemma backoff_mono: "backoff n \<le> backoff (Suc n)"
  by (simp add: backoff_def min_def)

lemma backoff_cap: "backoff n \<le> 300"
  by (simp add: backoff_def)

text \<open>
  What \<open>handle_rate_limit_error\<close> and \<open>reset_retry_count\<close> compute, call by call: the
  wait for a supplied retry time and without one, the end of the backoff window, the
  retry count, two calls in a row, and the first call after a reset.
\<close>

lemma backoff_properties:
  "fst (handle_rate_limit_error rl e (Some r) t)
      = (if r \<noteq> 0 then r else real (min (2 ^ (current_retry_count rl e + 1)) 300))
   \<and> fst (handle_rate_limit_error rl e None t) = real (min (2 ^ (current_retry_count rl e + 1)) 300)
   \<and> backoff_until (snd (handle_rate_limit_error rl e ra t)) (get_rate_limit_key rl e)
        = Some (t + fst (handle_rate_limit_error rl e ra t))
   \<and> current_retry_count (snd (handle_rate_limit_error rl e ra t)) e = current_retry_count rl e + 1
   \<and> fst (handle_rate_limit_error rl e None t)
        \<le> fst (handle_rate_limit_error (snd (handle_rate_limit_error rl e None t)) e None t')
   \<and> fst (handle_rate_limit_error rl e None t) \<le> 300
   \<and> current_retry_count (reset_retry_count rl e) e = 0
   \<and> fst (handle_rate_limit_error (reset_retry_count rl e) e None t) = 2"
proof -
  have mono: "fst (handle_rate_limit_error rl e None t)
        \<le> fst (handle_rate_limit_error (snd (handle_rate_limit_error rl e None t)) e None t')"
    by (simp add: handle_wait handle_count backoff_mono)
  have base: "fst (handle_rate_limit_error (reset_retry_count rl e) e None t) = 2"
    by (simp add: handle_wait reset_count backoff_def)
  have cap: "fst (handle_rate_limit_error rl e None t) \<le> 300"
    by (simp add: handle_wait backoff_cap)
  have w1: "fst (handle_rate_limit_error rl e (Some r) t)
      = (if r \<noteq> 0 then r else real (min (2 ^ (current_retry_count rl e + 1)) 300))"
    by (simp add: handle_wait backoff_def)
  have w2: "fst (handle_rate_limit_error rl e None t) = real (min (2 ^ (current_retry_count rl e + 1)) 300)"
    by (simp add: handle_wait backoff_def)
  show ?thesis
    using mono base cap w1 w2 handle_count [of rl e ra t] handle_backoff_until [of rl e ra t]
      reset_count [of rl e]
    by blast
qed

lemma lower_getwarehouses_id: "lower ''getwarehouses'' = ''getwarehouses''"
  by (simp add: lower_def lower_char_def)

lemma rate_limited_raw:
  "call_endpoint_raw rate_limited_transport example_client ''getwarehouses'' [] w
   = (Inr (PDict [(''error'', PStr ''429 Too Many Requests'')]),
      w\<lparr>clock := clock w, trace := trace w @ [HttpPost ''/inventory/getWarehouses''
               [(''TenantToken'', PStr ''tenant''), (''UserToken'', PStr ''user'')]]\<rparr>)"
  by (simp add: call_endpoint_raw_def example_client_def rate_limited_transport_def lower_getwarehouses_id Let_def)

lemma rate_limited_cached:
  "with_cache example_lib (call_endpoint_raw rate_limited_transport example_client) ''getwarehouses'' []
     (global_cache, w)
   = (Inr (PDict [(''error'', PStr ''429 Too Many Requests'')]), global_cache,
      w\<lparr>clock := clock w, trace := trace w @ [HttpPost ''/inventory/getWarehouses''
               [(''TenantToken'', PStr ''tenant''), (''UserToken'', PStr ''user'')]]\<rparr>)"
  by (simp add: with_cache_def cache_get_def Let_def global_cache_def SimpleCache_init_def rate_limited_raw)

lemma no_limit_in_msg: "re_search ''429 Too Many Requests'' = None"
  by (simp add: match_here_def)

lemma no_retry_after: "parse_retry_after example_lib ''429 Too Many Requests'' = None"
  by (simp add: parse_retry_after_def)

lemma example_py_str: "py_str example_lib (PStr m) = m"
  by (simp add: example_lib_def)

lemma loop_retry:
  assumes gate: "wait_if_needed rl e w = (Inr (), rl1, w1)"
    and func: "func e kw (a, w1) = (Inr (PDict [(''error'', PStr m)]), a2, w2)"
    and str: "py_str L (PStr m) = m"
    and is429: "str_contains ''429'' m"
    and nolimit: "re_search m = None"
    and noretry: "parse_retry_after L m = None"
    and handle: "handle_rate_limit_error rl1 e None (clock w2) = (wt, rl3)"
    and n: "n < 2"
  shows "rate_limit_loop L func e kw n last_result (rl, a, w) =
           rate_limit_loop L func e kw (Suc n) (Some (PDict [(''error'', PStr m)]))
             (rl3, a2, sleep wt w2)"
  using n
  by (subst rate_limit_loop.simps)
     (simp add: gate func str is429 nolimit noretry handle update_rate_limit_from_error_def Let_def)

lemma loop_give_up:
  assumes gate: "wait_if_needed rl e w = (Inr (), rl1, w1)"
    and func: "func e kw (a, w1) = (Inr (PDict [(''error'', PStr m)]), a2, w2)"
    and str: "py_str L (PStr m) = m"
    and is429: "str_contains ''429'' m"
    and nolimit: "re_search m = None"
    and noretry: "parse_retry_after L m = None"
    and handle: "handle_rate_limit_error rl1 e None (clock w2) = (wt, rl3)"
  shows "rate_limit_loop L func e kw (Suc (Suc 0)) last_result (rl, a, w) =
           (Inr (PDict [(''error'', PStr m)]), reset_retry_count rl3 e, a2, w2)"
  by (subst rate_limit_loop.simps)
     (simp add: gate func str is429 nolimit noretry handle update_rate_limit_from_error_def Let_def)

lemma gw_key:
  "rate_limits rl = rate_limits RateLimiter_init
   \<Longrightarrow> get_rate_limit_key rl ''getwarehouses'' = ''getwarehouses''"
  by (simp add: get_rate_limit_key_def lower_getwarehouses_id RateLimiter_init_def)

lemma gw_limit: "rate_limits RateLimiter_init ''getwarehouses'' = Some 1"
  by (simp add: RateLimiter_init_def)

lemma three_errors:
  "call_endpoint example_lib rate_limited_transport example_client ''getwarehouses'' []
     (RateLimiter_init, global_cache, \<lparr>clock = 0, trace = []\<rparr>)
   = (Inr (PDict [(''error'', PStr ''429 Too Many Requests'')]),
      RateLimiter_init\<lparr>last_call_times := [''getwarehouses'' \<mapsto> 120],
                       backoff_until := [''getwarehouses'' \<mapsto> 128]\<rparr>,
      global_cache,
      \<lparr>clock = 120,
       trace = [HttpPost ''/inventory/getWarehouses'' [(''TenantToken'', PStr ''tenant''), (''UserToken'', PStr ''user'')],
                Sleep 2, Sleep 58,
                HttpPost ''/inventory/getWarehouses'' [(''TenantToken'', PStr ''tenant''), (''UserToken'', PStr ''user'')],
                Sleep 4, Sleep 56,
                HttpPost ''/inventory/getWarehouses'' [(''TenantToken'', PStr ''tenant''), (''UserToken'', PStr ''user'')]]\<rparr>)"
proof -
  let ?post = "HttpPost ''/inventory/getWarehouses'' [(''TenantToken'', PStr ''tenant''), (''UserToken'', PStr ''user'')]"
  let ?m = "''429 Too Many Requests''"
  let ?f = "with_cache example_lib (call_endpoint_raw rate_limited_transport example_client)"
  have is429: "str_contains ''429'' ?m" by simp
  \<comment> \<open>first attempt, at time 0\<close>
  have g1: "wait_if_needed RateLimiter_init ''getwarehouses'' \<lparr>clock = 0, trace = []\<rparr>
            = (Inr (), RateLimiter_init\<lparr>last_call_times := [''getwarehouses'' \<mapsto> 0]\<rparr>, \<lparr>clock = 0, trace = []\<rparr>)"
    by (simp add: wait_if_needed_def gw_key Let_def; simp add: RateLimiter_init_def numeral_2_eq_2 numeral_3_eq_3)
  have f1: "?f ''getwarehouses'' [] (global_cache, \<lparr>clock = 0, trace = []\<rparr>)
            = (Inr (PDict [(''error'', PStr ?m)]), global_cache, \<lparr>clock = 0, trace = [?post]\<rparr>)"
    by (simp add: rate_limited_cached)
  have h1: "handle_rate_limit_error (RateLimiter_init\<lparr>last_call_times := [''getwarehouses'' \<mapsto> 0]\<rparr>)
              ''getwarehouses'' None (clock \<lparr>clock = 0, trace = [?post]\<rparr>)
            = (2, RateLimiter_init\<lparr>last_call_times := [''getwarehouses'' \<mapsto> 0],
                                    retry_counts := [''getwarehouses'' \<mapsto> 1],
                                    backoff_until := [''getwarehouses'' \<mapsto> 2]\<rparr>)"
    by (simp add: handle_rate_limit_error_def gw_key Let_def; simp add: RateLimiter_init_def numeral_2_eq_2 numeral_3_eq_3)
  \<comment> \<open>second attempt, at time 2\<close>
  have g2: "wait_if_needed (RateLimiter_init\<lparr>last_call_times := [''getwarehouses'' \<mapsto> 0],
                                    retry_counts := [''getwarehouses'' \<mapsto> 1],
                                    backoff_until := [''getwarehouses'' \<mapsto> 2]\<rparr>)
              ''getwarehouses'' (sleep 2 \<lparr>clock = 0, trace = [?post]\<rparr>)
            = (Inr (), RateLimiter_init\<lparr>last_call_times := [''getwarehouses'' \<mapsto> 60],
                                    retry_counts := [''getwarehouses'' \<mapsto> 1],
                                    backoff_until := [''getwarehouses'' \<mapsto> 2]\<rparr>,
               \<lparr>clock = 60, trace = [?post, Sleep 2, Sleep 58]\<rparr>)"
    by (simp add: wait_if_needed_def gw_key Let_def sleep_def gw_limit; simp add: RateLimiter_init_def numeral_2_eq_2 numeral_3_eq_3)
  have f2: "?f ''getwarehouses'' [] (global_cache, \<lparr>clock = 60, trace = [?post, Sleep 2, Sleep 58]\<rparr>)
            = (Inr (PDict [(''error'', PStr ?m)]), global_cache,
               \<lparr>clock = 60, trace = [?post, Sleep 2, Sleep 58, ?post]\<rparr>)"
    by (simp add: rate_limited_cached)
  have h2: "handle_rate_limit_error (RateLimiter_init\<lparr>last_call_times := [''getwarehouses'' \<mapsto> 60],
                                    retry_counts := [''getwarehouses'' \<mapsto> 1],
                                    backoff_until := [''getwarehouses'' \<mapsto> 2]\<rparr>)
              ''getwarehouses'' None (clock \<lparr>clock = 60, trace = [?post, Sleep 2, Sleep 58, ?post]\<rparr>)
            = (4, RateLimiter_init\<lparr>last_call_times := [''getwarehouses'' \<mapsto> 60],
                                    retry_counts := [''getwarehouses'' \<mapsto> 2],
                                    backoff_until := [''getwarehouses'' \<mapsto> 64]\<rparr>)"
    by (simp add: handle_rate_limit_error_def gw_key Let_def; simp add: RateLimiter_init_def numeral_2_eq_2 numeral_3_eq_3)
  \<comment> \<open>third attempt, at time 64\<close>
  have g3: "wait_if_needed (RateLimiter_init\<lparr>last_call_times := [''getwarehouses'' \<mapsto> 60],
                                    retry_counts := [''getwarehouses'' \<mapsto> 2],
                                    backoff_until := [''getwarehouses'' \<mapsto> 64]\<rparr>)
              ''getwarehouses'' (sleep 4 \<lparr>clock = 60, trace = [?post, Sleep 2, Sleep 58, ?post]\<rparr>)
            = (Inr (), RateLimiter_init\<lparr>last_call_times := [''getwarehouses'' \<mapsto> 120],
                                    retry_counts := [''getwarehouses'' \<mapsto> 2],
                                    backoff_until := [''getwarehouses'' \<mapsto> 64]\<rparr>,
               \<lparr>clock = 120, trace = [?post, Sleep 2, Sleep 58, ?post, Sleep 4, Sleep 56]\<rparr>)"
    by (simp add: wait_if_needed_def gw_key Let_def sleep_def gw_limit; simp add: RateLimiter_init_def numeral_2_eq_2 numeral_3_eq_3)
  have f3: "?f ''getwarehouses'' [] (global_cache, \<lparr>clock = 120, trace = [?post, Sleep 2, Sleep 58, ?post, Sleep 4, Sleep 56]\<rparr>)
            = (Inr (PDict [(''error'', PStr ?m)]), global_cache,
               \<lparr>clock = 120, trace = [?post, Sleep 2, Sleep 58, ?post, Sleep 4, Sleep 56, ?post]\<rparr>)"
    by (simp add: rate_limited_cached)
  have h3: "handle_rate_limit_error (RateLimiter_init\<lparr>last_call_times := [''getwarehouses'' \<mapsto> 120],
                                    retry_counts := [''getwarehouses'' \<mapsto> 2],
                                    backoff_until := [''getwarehouses'' \<mapsto> 64]\<rparr>)
              ''getwarehouses'' None (clock \<lparr>clock = 120, trace = [?post, Sleep 2, Sleep 58, ?post, Sleep 4, Sleep 56, ?post]\<rparr>)
            = (8, RateLimiter_init\<lparr>last_call_times := [''getwarehouses'' \<mapsto> 120],
                                    retry_counts := [''getwarehouses'' \<mapsto> 3],
                                    backoff_until := [''getwarehouses'' \<mapsto> 128]\<rparr>)"
    by (simp add: handle_rate_limit_error_def gw_key Let_def; simp add: RateLimiter_init_def numeral_2_eq_2 numeral_3_eq_3)
  have r3: "reset_retry_count (RateLimiter_init\<lparr>last_call_times := [''getwarehouses'' \<mapsto> 120],
                                    retry_counts := [''getwarehouses'' \<mapsto> 3],
                                    backoff_until := [''getwarehouses'' \<mapsto> 128]\<rparr>) ''getwarehouses''
            = RateLimiter_init\<lparr>last_call_times := [''getwarehouses'' \<mapsto> 120],
                                backoff_until := [''getwarehouses'' \<mapsto> 128]\<rparr>"
    by (simp add: reset_retry_count_def gw_key Let_def; simp add: RateLimiter_init_def numeral_2_eq_2 numeral_3_eq_3)
  let ?R = "PDict [(''error'', PStr ?m)]"
  have "rate_limit_loop example_lib ?f ''getwarehouses'' [] 0 None
          (RateLimiter_init, global_cache, \<lparr>clock = 0, trace = []\<rparr>)
        = rate_limit_loop example_lib ?f ''getwarehouses'' [] (Suc 0) (Some ?R)
          (RateLimiter_init\<lparr>last_call_times := [''getwarehouses'' \<mapsto> 0],
                                    retry_counts := [''getwarehouses'' \<mapsto> 1],
                                    backoff_until := [''getwarehouses'' \<mapsto> 2]\<rparr>,
           global_cache, sleep 2 \<lparr>clock = 0, trace = [?post]\<rparr>)"
    by (rule loop_retry [where func = ?f, OF g1 f1 example_py_str is429 no_limit_in_msg no_retry_after h1]) simp
  also have "\<dots> = rate_limit_loop example_lib ?f ''getwarehouses'' [] (Suc (Suc 0)) (Some ?R)
          (RateLimiter_init\<lparr>last_call_times := [''getwarehouses'' \<mapsto> 60],
                                    retry_counts := [''getwarehouses'' \<mapsto> 2],
                                    backoff_until := [''getwarehouses'' \<mapsto> 64]\<rparr>,
           global_cache, sleep 4 \<lparr>clock = 60, trace = [?post, Sleep 2, Sleep 58, ?post]\<rparr>)"
    by (rule loop_retry [where func = ?f, OF g2 f2 example_py_str is429 no_limit_in_msg no_retry_after h2]) simp
  also have "\<dots> = (Inr ?R,
          reset_retry_count (RateLimiter_init\<lparr>last_call_times := [''getwarehouses'' \<mapsto> 120],
                                    retry_counts := [''getwarehouses'' \<mapsto> 3],
                                    backoff_until := [''getwarehouses'' \<mapsto> 128]\<rparr>) ''getwarehouses'',
          global_cache,
          \<lparr>clock = 120, trace = [?post, Sleep 2, Sleep 58, ?post, Sleep 4, Sleep 56, ?post]\<rparr>)"
    by (rule loop_give_up [where func = ?f, OF g3 f3 example_py_str is429 no_limit_in_msg no_retry_after h3])
  finally show ?thesis
    unfolding call_endpoint_def r3 .
qed

lemma after_three:
  "fst (handle_rate_limit_error
          (RateLimiter_init\<lparr>last_call_times := [''getwarehouses'' \<mapsto> 120],
                             backoff_until := [''getwarehouses'' \<mapsto> 128]\<rparr>)
          ''getwarehouses'' None 120) = 2"
  by (simp add: handle_rate_limit_error_def gw_key Let_def; simp add: RateLimiter_init_def numeral_2_eq_2 numeral_3_eq_3)


text \<open>
  C3. The code departs from the claim in two places.
  A retry time of zero supplied by the server (an error text \<open>Retry after 0\<close>) is not
  used: under the comment \<^verbatim>\<open>Use API-provided retry time\<close> the test \<^verbatim>\<open>if retry_after:\<close> is
  false for \<^verbatim>\<open>0.0\<close>, and the wait returned is the exponential backoff 2, the window
  set at time 100 ending at 102.
  The backoff windows decrease without any success: when the third attempt of
  \<open>call_endpoint\<close> is rate-limited as well, \<open>with_rate_limit\<close> falls through to the lines
  commented \<^verbatim>\<open>Success - reset retry count\<close>. Three rate-limit errors in a row give the
  windows 2, 4 and 8 seconds, the retry count is then reset, and the next rate-limit
  error gives 2 seconds again.
\<close>

theorem C3_backoff_defects:
  "parse_retry_after example_lib ''429 Retry after 0'' = Some 0
   \<and> handle_rate_limit_error RateLimiter_init ''getproducts'' (Some 0) 100
     = (2, RateLimiter_init\<lparr>retry_counts := [''getproducts'' \<mapsto> 1],
                             backoff_until := [''getproducts'' \<mapsto> 102]\<rparr>)
   \<and> call_endpoint example_lib rate_limited_transport example_client ''getwarehouses'' []
       (RateLimiter_init, global_cache, \<lparr>clock = 0, trace = []\<rparr>)
     = (Inr (PDict [(''error'', PStr ''429 Too Many Requests'')]),
        RateLimiter_init\<lparr>last_call_times := [''getwarehouses'' \<mapsto> 120],
                         backoff_until := [''getwarehouses'' \<mapsto> 128]\<rparr>,
        global_cache,
        \<lparr>clock = 120,
         trace = [HttpPost ''/inventory/getWarehouses'' [(''TenantToken'', PStr ''tenant''), (''UserToken'', PStr ''user'')],
                  Sleep 2, Sleep 58,
                  HttpPost ''/inventory/getWarehouses'' [(''TenantToken'', PStr ''tenant''), (''UserToken'', PStr ''user'')],
                  Sleep 4, Sleep 56,
                  HttpPost ''/inventory/getWarehouses'' [(''TenantToken'', PStr ''tenant''), (''UserToken'', PStr ''user'')]]\<rparr>)
   \<and> fst (handle_rate_limit_error
            (RateLimiter_init\<lparr>last_call_times := [''getwarehouses'' \<mapsto> 120],
                               backoff_until := [''getwarehouses'' \<mapsto> 128]\<rparr>)
            ''getwarehouses'' None 120) = 2"
proof -
  have parse: "parse_retry_after example_lib ''429 Retry after 0'' = Some 0"
    by (simp add: parse_retry_after_def is_space_def example_lib_def)
  have zero: "handle_rate_limit_error RateLimiter_init ''getproducts'' (Some 0) 100
     = (2, RateLimiter_init\<lparr>retry_counts := [''getproducts'' \<mapsto> 1],
                             backoff_until := [''getproducts'' \<mapsto> 102]\<rparr>)"
    by (simp add: handle_rate_limit_error_def get_rate_limit_key_def RateLimiter_init_def
        lower_def lower_char_def Let_def)
  from parse zero three_errors after_three show ?thesis by simp
qed

section \<open>Limits learned from error messages\<close>

lemma digit_char_is_digit: "n < 10 \<Longrightarrow> is_digit (''0123456789'' ! n)"
proof -
  assume "n < 10"
  then have "n \<in> {0, 1, 2, 3, 4, 5, 6, 7, 8, 9}" by auto
  then show ?thesis by (auto simp: is_digit_def)
qed

lemma digit_char_val: "n < 10 \<Longrightarrow> digit_val (''0123456789'' ! n) = n"
proof -
  assume "n < 10"
  then have "n \<in> {0, 1, 2, 3, 4, 5, 6, 7, 8, 9}" by auto
  then show ?thesis by (auto simp: digit_val_def)
qed

lemma str_of_nat_digits: "list_all is_digit (str_of_nat n)"
proof (induction n rule: str_of_nat.induct)
  case (1 n)
  show ?case
  proof (cases "n < 10")
    case True
    then show ?thesis by (subst str_of_nat.simps) (simp add: digit_char_is_digit)
  next
    case False
    with 1 show ?thesis by (subst str_of_nat.simps) (simp add: digit_char_is_digit)
  qed
qed

lemma str_of_nat_nonempty: "str_of_nat n \<noteq> []"
  by (subst str_of_nat.simps) simp

lemma int_of_digits_snoc: "int_of_digits (ds @ [c]) = 10 * int_of_digits ds + digit_val c"
  by (simp add: int_of_digits_def)

lemma int_of_digits_str_of_nat: "int_of_digits (str_of_nat n) = n"
proof (induction n rule: str_of_nat.induct)
  case (1 n)
  show ?case
  proof (cases "n < 10")
    case True
    then show ?thesis
      by (subst str_of_nat.simps) (simp add: int_of_digits_def digit_char_val)
  next
    case False
    with 1 show ?thesis
      by (subst str_of_nat.simps) (simp add: int_of_digits_snoc digit_char_val)
  qed
qed

lemma starts_with_append: "starts_with p (p @ s)"
  by (induction p) simp_all

lemma takeWhile_digits:
  "list_all is_digit ds \<Longrightarrow> takeWhile is_digit (ds @ CHR '' '' # s) = ds"
  by (induction ds) (simp_all add: is_digit_def)

lemma dropWhile_digits:
  "list_all is_digit ds \<Longrightarrow> dropWhile is_digit (ds @ CHR '' '' # s) = CHR '' '' # s"
  by (induction ds) (simp_all add: is_digit_def)

lemma match_here_limit:
  assumes "list_all is_digit ds" and "ds \<noteq> []"
  shows "match_here (''Only '' @ ds @ '' API calls per minute'' @ post) = Some (int_of_digits ds)"
  using assms(2)
  by (simp add: match_here_def Let_def takeWhile_digits [OF assms(1)] dropWhile_digits [OF assms(1)])

lemma match_here_not_O: "CHR ''O'' \<noteq> c \<Longrightarrow> match_here (c # s) = None"
  by (simp add: match_here_def)

lemma re_search_skip:
  "CHR ''O'' \<notin> set pre \<Longrightarrow> re_search (pre @ s) = re_search s"
  by (induction pre) (simp_all add: match_here_not_O)

lemma re_search_limit:
  assumes "CHR ''O'' \<notin> set pre"
  shows "re_search (pre @ ''Only '' @ str_of_nat n @ '' API calls per minute'' @ post) = Some n"
proof -
  have "match_here (''Only '' @ str_of_nat n @ '' API calls per minute'' @ post) = Some n"
    by (simp only: match_here_limit [OF str_of_nat_digits str_of_nat_nonempty] int_of_digits_str_of_nat)
  then have "re_search (''Only '' @ str_of_nat n @ '' API calls per minute'' @ post) = Some n"
    by simp
  with re_search_skip [OF assms] show ?thesis by simp
qed


lemma re_search_no_O: "CHR ''O'' \<notin> set msg \<Longrightarrow> re_search msg = None"
  using re_search_skip [of msg "[]"] by simp

lemma update_frame:
  "last_call_times (update_rate_limit_from_error rl e msg) = last_call_times rl
   \<and> retry_counts (update_rate_limit_from_error rl e msg) = retry_counts rl
   \<and> backoff_until (update_rate_limit_from_error rl e msg) = backoff_until rl"
  by (simp add: update_rate_limit_from_error_def Let_def split: option.splits)

lemma update_other_keys:
  "k \<noteq> lower e \<Longrightarrow> rate_limits (update_rate_limit_from_error rl e msg) k = rate_limits rl k"
  by (simp add: update_rate_limit_from_error_def Let_def split: option.splits)

lemma starts_with_split: "starts_with p s \<Longrightarrow> k = length p \<Longrightarrow> s = p @ drop k s"
  by (simp add: starts_with_iff) (metis append_take_drop_id)

lemma match_here_pattern:
  assumes "list_all is_digit ds" and "ds \<noteq> []" and "sfx = [] \<or> sfx = ''s''"
  shows "match_here (''Only '' @ ds @ '' API call'' @ sfx @ '' per minute'' @ post)
         = Some (int_of_digits ds)"
  using assms(2,3)
  by (auto simp: match_here_def Let_def takeWhile_digits [OF assms(1)] dropWhile_digits [OF assms(1)])

lemma match_here_iff: "match_here s = Some n \<longleftrightarrow> limit_pattern_at s n"
proof
  assume m: "match_here s = Some n"
  define r where "r = drop 5 s"
  define ds where "ds = takeWhile is_digit r"
  define r1 where "r1 = dropWhile is_digit r"
  define r2 where "r2 = drop 9 r1"
  from m have only: "starts_with ''Only '' s"
    by (simp add: match_here_def split: if_splits)
  from m only have nonempty: "ds \<noteq> []"
    by (auto simp: match_here_def Let_def ds_def r_def split: if_splits)
  from m only nonempty have api: "starts_with '' API call'' r1"
    by (auto simp: match_here_def Let_def ds_def r1_def r_def split: if_splits)
  from m only nonempty api have tail: "starts_with ''s per minute'' r2 \<or> starts_with '' per minute'' r2"
    and n: "n = int_of_digits ds"
    by (auto simp: match_here_def Let_def ds_def r1_def r2_def r_def split: if_splits)
  have s: "s = ''Only '' @ r"
    unfolding r_def by (rule starts_with_split [OF only]) simp
  have r: "r = ds @ r1"
    by (simp add: ds_def r1_def)
  have r1: "r1 = '' API call'' @ r2"
    unfolding r2_def by (rule starts_with_split [OF api]) simp
  have digits: "list_all is_digit ds"
    by (auto simp: ds_def list_all_iff dest: set_takeWhileD)
  from tail obtain sfx post where r2: "r2 = sfx @ '' per minute'' @ post" and sfx: "sfx = [] \<or> sfx = ''s''"
  proof
    assume "starts_with ''s per minute'' r2"
    then have "r2 = ''s per minute'' @ drop 12 r2" by (rule starts_with_split) simp
    then have "r2 = ''s'' @ '' per minute'' @ drop 12 r2" by simp
    then show ?thesis using that by blast
  next
    assume "starts_with '' per minute'' r2"
    then have "r2 = '' per minute'' @ drop 11 r2" by (rule starts_with_split) simp
    then have "r2 = [] @ '' per minute'' @ drop 11 r2" by simp
    then show ?thesis using that by blast
  qed
  have "s = ''Only '' @ ds @ '' API call'' @ sfx @ '' per minute'' @ post"
    using s r r1 r2 by simp
  with nonempty digits sfx n show "limit_pattern_at s n"
    unfolding limit_pattern_at_def by blast
next
  assume "limit_pattern_at s n"
  then show "match_here s = Some n"
    unfolding limit_pattern_at_def using match_here_pattern by blast
qed

lemma re_search_leftmost:
  "(\<forall>i<length pre. match_here (drop i (pre @ s)) = None) \<Longrightarrow> re_search (pre @ s) = re_search s"
proof (induction pre)
  case Nil
  then show ?case by simp
next
  case (Cons c pre)
  from Cons.prems have here: "match_here (c # pre @ s) = None"
    by (metis append_Cons drop0 length_greater_0_conv list.distinct(1))
  have "\<forall>i<length pre. match_here (drop i (pre @ s)) = None"
  proof (intro allI impI)
    fix i assume "i < length pre"
    then have "Suc i < length (c # pre)" by simp
    with Cons.prems have "match_here (drop (Suc i) ((c # pre) @ s)) = None" by blast
    then show "match_here (drop i (pre @ s)) = None" by simp
  qed
  with Cons.IH have "re_search (pre @ s) = re_search s" .
  with here show ?case by simp
qed

lemma re_search_here: "match_here s = Some n \<Longrightarrow> re_search s = Some n"
  by (cases s) (simp_all add: match_here_def)

lemma re_search_none:
  "(\<forall>i. match_here (drop i msg) = None) \<Longrightarrow> re_search msg = None"
proof (induction msg)
  case Nil
  then show ?case by simp
next
  case (Cons c cs)
  from Cons.prems have here: "match_here (c # cs) = None"
    by (metis drop0)
  have "\<forall>i. match_here (drop i cs) = None"
  proof
    fix i
    from Cons.prems have "match_here (drop (Suc i) (c # cs)) = None" by blast
    then show "match_here (drop i cs) = None" by simp
  qed
  with Cons.IH have "re_search cs = None" .
  with here show ?case by simp
qed

lemma no_pattern_iff: "(\<forall>m. \<not> limit_pattern_at s m) \<longleftrightarrow> match_here s = None"
  using match_here_iff [of s] by (cases "match_here s") auto

text \<open>
  C9, amended. If the text matches the pattern at some position and at no earlier one,
  the limit stored under the lowercased endpoint name becomes the number of that
  leftmost match. If the text matches at no position, the limiter is unchanged. Whatever
  the text, the limit stored under every other key is unchanged, and so are the call
  times, retry counts and backoff windows.
\<close>

theorem C9_leftmost_match_sets_limit:
  "((\<forall>i<length pre. \<forall>m. \<not> limit_pattern_at (drop i (pre @ s)) m) \<and> limit_pattern_at s n \<longrightarrow>
      rate_limits (update_rate_limit_from_error rl e (pre @ s)) = (rate_limits rl)(lower e \<mapsto> n))
   \<and> ((\<forall>i m. \<not> limit_pattern_at (drop i msg) m) \<longrightarrow> update_rate_limit_from_error rl e msg = rl)
   \<and> (k \<noteq> lower e \<longrightarrow> rate_limits (update_rate_limit_from_error rl e msg) k = rate_limits rl k)
   \<and> last_call_times (update_rate_limit_from_error rl e msg) = last_call_times rl
   \<and> retry_counts (update_rate_limit_from_error rl e msg) = retry_counts rl
   \<and> backoff_until (update_rate_limit_from_error rl e msg) = backoff_until rl"
proof -
  have a: "rate_limits (update_rate_limit_from_error rl e (pre @ s)) = (rate_limits rl)(lower e \<mapsto> n)"
    if first: "\<forall>i<length pre. \<forall>m. \<not> limit_pattern_at (drop i (pre @ s)) m"
      and here: "limit_pattern_at s n"
  proof -
    from first have "\<forall>i<length pre. match_here (drop i (pre @ s)) = None"
      by (simp add: no_pattern_iff)
    then have "re_search (pre @ s) = re_search s" by (rule re_search_leftmost)
    also from here have "\<dots> = Some n" by (simp add: match_here_iff [symmetric] re_search_here)
    finally show ?thesis by (simp add: update_rate_limit_from_error_def Let_def)
  qed
  have b: "update_rate_limit_from_error rl e msg = rl"
    if "\<forall>i m. \<not> limit_pattern_at (drop i msg) m"
  proof -
    from that have "\<forall>i. match_here (drop i msg) = None"
      by (simp add: no_pattern_iff)
    then have "re_search msg = None" by (rule re_search_none)
    then show ?thesis by (simp add: update_rate_limit_from_error_def)
  qed
  have c: "k \<noteq> lower e \<Longrightarrow> rate_limits (update_rate_limit_from_error rl e msg) k = rate_limits rl k"
    by (rule update_other_keys)
  show ?thesis
    using a b c update_frame [of rl e msg] by (intro conjI impI) simp_all
qed


lemma match_here_no_O: "CHR ''O'' \<notin> set s \<Longrightarrow> match_here s = None"
  by (cases s) (auto simp: match_here_def)

lemma no_pattern_without_O:
  assumes "CHR ''O'' \<notin> set msg"
  shows "\<not> (\<exists>i m. limit_pattern_at (drop i msg) m)"
proof -
  have "match_here (drop i msg) = None" for i
  proof (rule match_here_no_O)
    from assms show "CHR ''O'' \<notin> set (drop i msg)"
      by (meson in_set_dropD)
  qed
  then show ?thesis by (simp add: match_here_iff [symmetric])
qed

text \<open>
  C9, as the claim states it, fails for an endpoint whose lowercased name is the key of a
  category class. The class \<open>products\<close>, to which \<open>getProductList\<close> belongs, has the
  limit 5; an error message for the endpoint \<open>Products\<close> overwrites that limit with 1.
\<close>

theorem C9_endpoint_named_as_class:
  "get_rate_limit_key RateLimiter_init ''Products'' = ''products''
   \<and> get_rate_limit_key RateLimiter_init ''getProductList'' = ''products''
   \<and> rate_limits RateLimiter_init ''products'' = Some 5
   \<and> rate_limits (update_rate_limit_from_error RateLimiter_init ''Products''
                    ''Only 1 API calls per minute'') ''products'' = Some 1"
proof -
  have low1: "lower ''Products'' = ''products''"
    by (simp add: lower_def lower_char_def)
  have low2: "lower ''getProductList'' = ''getproductlist''"
    by (simp add: lower_def lower_char_def)
  have m: "re_search ''Only 1 API calls per minute'' = Some 1"
    by (simp add: match_here_def is_digit_def int_of_digits_def digit_val_def)
  have upd: "update_rate_limit_from_error RateLimiter_init ''Products'' ''Only 1 API calls per minute''
             = RateLimiter_init\<lparr>rate_limits := (rate_limits RateLimiter_init)(''products'' \<mapsto> 1)\<rparr>"
    unfolding update_rate_limit_from_error_def m by (simp add: low1 Let_def)
  show ?thesis
    unfolding upd by (simp add: get_rate_limit_key_def low1 low2 RateLimiter_init_def)
qed

theorem C9_leftmost_match_sets_limit_witness:
  "limit_pattern_at ''Only 2 API calls per minute'' 2
   \<and> \<not> (\<exists>i<11. \<exists>m. limit_pattern_at (drop i ''ERROR 429: Only 2 API calls per minute'') m)
   \<and> rate_limits (update_rate_limit_from_error RateLimiter_init ''getInventoryByLocation''
                    (''ERROR 429: '' @ ''Only 2 API calls per minute''))
       = (rate_limits RateLimiter_init)(''getinventorybylocation'' \<mapsto> 2)
   \<and> \<not> (\<exists>i m. limit_pattern_at (drop i ''429 Too many requests'') m)
   \<and> update_rate_limit_from_error RateLimiter_init ''getInventoryByLocation'' ''429 Too many requests''
       = RateLimiter_init
   \<and> ''inventory'' \<noteq> lower ''getInventoryByLocation''
   \<and> rate_limits (update_rate_limit_from_error RateLimiter_init ''getInventoryByLocation''
                    ''ERROR 429: Only 2 API calls per minute'') ''inventory'' = Some 5"
proof -
  let ?pre = "''ERROR 429: ''"
  let ?s = "''Only 2 API calls per minute''"
  have low: "lower ''getInventoryByLocation'' = ''getinventorybylocation''"
    by (simp add: lower_def lower_char_def)
  have here: "limit_pattern_at ?s 2"
    unfolding match_here_iff [symmetric]
    by (simp add: match_here_def is_digit_def int_of_digits_def digit_val_def)
  have before: "match_here (drop i (?pre @ ?s)) = None" if "i < 11" for i
  proof -
    from that have "i = 0 \<or> i = 1 \<or> i = 2 \<or> i = 3 \<or> i = 4 \<or> i = 5 \<or> i = 6 \<or> i = 7
        \<or> i = 8 \<or> i = 9 \<or> i = 10" by arith
    then show ?thesis by (auto simp: match_here_def)
  qed
  then have first: "\<forall>i<length ?pre. \<forall>m. \<not> limit_pattern_at (drop i (?pre @ ?s)) m"
    by (simp add: match_here_iff [symmetric])
  then have first': "\<not> (\<exists>i<11. \<exists>m. limit_pattern_at (drop i ''ERROR 429: Only 2 API calls per minute'') m)"
    by simp
  have never: "\<not> (\<exists>i m. limit_pattern_at (drop i ''429 Too many requests'') m)"
    by (rule no_pattern_without_O) simp
  have other: "''inventory'' \<noteq> lower ''getInventoryByLocation''"
    by (simp add: low)
  have lim: "rate_limits RateLimiter_init ''inventory'' = Some 5"
    by (simp add: RateLimiter_init_def)
  note t1 = C9_leftmost_match_sets_limit [of ?pre ?s 2 RateLimiter_init "''getInventoryByLocation''"
      "''429 Too many requests''" "''inventory''"]
  note t2 = C9_leftmost_match_sets_limit [of ?pre ?s 2 RateLimiter_init "''getInventoryByLocation''"
      "?pre @ ?s" "''inventory''"]
  have c1: "rate_limits (update_rate_limit_from_error RateLimiter_init ''getInventoryByLocation'' (?pre @ ?s))
       = (rate_limits RateLimiter_init)(''getinventorybylocation'' \<mapsto> 2)"
    using t1 first here low by simp
  have c2: "update_rate_limit_from_error RateLimiter_init ''getInventoryByLocation'' ''429 Too many requests''
       = RateLimiter_init"
    using t1 never by blast
  have c3: "rate_limits (update_rate_limit_from_error RateLimiter_init ''getInventoryByLocation''
                    ''ERROR 429: Only 2 API calls per minute'') ''inventory'' = Some 5"
    using t2 other lim by simp
  from here first' c1 never c2 other c3 show ?thesis by blast
qed


section \<open>An endpoint that leaves its category class\<close>

lemma key_in_dom:
  "{''products'', ''warehouses'', ''inventory'', ''default''} \<subseteq> dom (rate_limits rl)
   \<Longrightarrow> get_rate_limit_key rl e \<in> dom (rate_limits rl)"
  by (auto simp: get_rate_limit_key_def Let_def)

lemma limiter_inv_init: "limiter_inv RateLimiter_init"
  by (simp add: limiter_inv_def RateLimiter_init_def)

lemma limiter_inv_wait: "limiter_inv rl \<Longrightarrow> limiter_inv (fst (snd (wait_if_needed rl e w)))"
proof -
  assume inv: "limiter_inv rl"
  then have k: "get_rate_limit_key rl e \<in> dom (rate_limits rl)"
    by (simp add: limiter_inv_def key_in_dom)
  show ?thesis
    using inv k
    by (auto simp: wait_if_needed_def Let_def limiter_inv_def split: option.splits if_splits prod.splits)
qed

lemma limiter_inv_handle: "limiter_inv rl \<Longrightarrow> limiter_inv (snd (handle_rate_limit_error rl e ra t))"
proof -
  assume inv: "limiter_inv rl"
  then have k: "get_rate_limit_key rl e \<in> dom (rate_limits rl)"
    by (simp add: limiter_inv_def key_in_dom)
  show ?thesis
    using inv k by (auto simp: handle_rate_limit_error_def Let_def limiter_inv_def)
qed

lemma limiter_inv_reset: "limiter_inv rl \<Longrightarrow> limiter_inv (reset_retry_count rl e)"
  by (auto simp: reset_retry_count_def Let_def limiter_inv_def)

lemma limiter_inv_update: "limiter_inv rl \<Longrightarrow> limiter_inv (update_rate_limit_from_error rl e msg)"
  by (auto simp: update_rate_limit_from_error_def Let_def limiter_inv_def split: option.splits)

lemma limiter_inv_apply: "limiter_inv (fst s) \<Longrightarrow> limiter_inv (fst (apply_limiter_op s op))"
  by (cases s; cases op)
     (simp_all add: limiter_inv_wait limiter_inv_handle limiter_inv_reset limiter_inv_update)

lemma limiter_inv_foldl: "limiter_inv (fst s) \<Longrightarrow> limiter_inv (fst (foldl apply_limiter_op s ops))"
  by (induction ops arbitrary: s) (simp_all add: limiter_inv_apply)

lemma limiter_inv_reachable: "limiter_inv (fst (foldl apply_limiter_op (RateLimiter_init, w0) ops))"
  by (rule limiter_inv_foldl) (simp add: limiter_inv_init)

lemma fresh_key:
  assumes "limiter_inv rl" and "rate_limits rl k = None"
  shows "last_call_times rl k = None \<and> retry_counts rl k = None \<and> backoff_until rl k = None"
  using assms by (auto simp: limiter_inv_def)

lemma former_class:
  assumes "limiter_inv rl" and "rate_limits rl (lower e) = None"
  shows "get_rate_limit_key rl e \<in> {''products'', ''warehouses'', ''inventory'', ''default''}
         \<and> get_rate_limit_key rl e \<noteq> lower e"
proof -
  have a: "get_rate_limit_key rl e \<in> {''products'', ''warehouses'', ''inventory'', ''default''}"
    using assms(2) by (simp add: get_rate_limit_key_def Let_def)
  have "get_rate_limit_key rl e \<in> dom (rate_limits rl)"
    using assms(1) by (simp add: limiter_inv_def key_in_dom)
  with assms(2) have "get_rate_limit_key rl e \<noteq> lower e" by auto
  with a show ?thesis by simp
qed

text \<open>
  C10. Let the limiter be in any state reached from its initial one, let the endpoint
  \<open>E\<close> have no entry of its own in the limits table, and let the error message carry a
  limit. Before the update the class of \<open>E\<close> is one of the four category classes and not
  its own name; after it the class of \<open>E\<close> is its lowercased name. That class has no
  last call time, retry count or backoff window yet: the next \<open>wait_if_needed\<close> for
  \<open>E\<close> returns at once, whatever was accumulated for the former class, and records the
  call under the new class only; the next rate-limit error starts again from a retry
  count of one.
\<close>

theorem C10_fresh_class:
  assumes reach: "rl = fst (foldl apply_limiter_op (RateLimiter_init, w0) ops)"
    and absent: "rate_limits rl (lower E) = None"
    and matches: "re_search msg = Some n"
    and upd: "rl' = update_rate_limit_from_error rl E msg"
  shows "get_rate_limit_key rl' E = lower E
    \<and> get_rate_limit_key rl E \<in> {''products'', ''warehouses'', ''inventory'', ''default''}
    \<and> get_rate_limit_key rl E \<noteq> lower E
    \<and> last_call_times rl' (lower E) = None
    \<and> retry_counts rl' (lower E) = None
    \<and> backoff_until rl' (lower E) = None
    \<and> wait_if_needed rl' E w
        = (Inr (), rl'\<lparr>last_call_times := (last_call_times rl')(lower E \<mapsto> clock w)\<rparr>, w)
    \<and> handle_rate_limit_error rl' E None t
        = (2, rl'\<lparr>retry_counts := (retry_counts rl')(lower E \<mapsto> 1),
                   backoff_until := (backoff_until rl')(lower E \<mapsto> t + 2)\<rparr>)"
proof -
  have inv: "limiter_inv rl"
    unfolding reach by (rule limiter_inv_reachable)
  have rl': "rl' = rl\<lparr>rate_limits := (rate_limits rl)(lower E \<mapsto> n)\<rparr>"
    by (simp add: upd update_rate_limit_from_error_def matches Let_def)
  have key: "get_rate_limit_key rl' E = lower E"
    by (simp add: rl' get_rate_limit_key_def Let_def)
  note fresh = fresh_key [OF inv absent]
  have f1: "last_call_times rl' (lower E) = None" using fresh by (simp add: rl')
  have f2: "retry_counts rl' (lower E) = None" using fresh by (simp add: rl')
  have f3: "backoff_until rl' (lower E) = None" using fresh by (simp add: rl')
  have w: "wait_if_needed rl' E w
        = (Inr (), rl'\<lparr>last_call_times := (last_call_times rl')(lower E \<mapsto> clock w)\<rparr>, w)"
    by (simp add: wait_if_needed_def key f1 f3 Let_def)
  have h: "handle_rate_limit_error rl' E None t
        = (2, rl'\<lparr>retry_counts := (retry_counts rl')(lower E \<mapsto> 1),
                   backoff_until := (backoff_until rl')(lower E \<mapsto> t + 2)\<rparr>)"
    by (simp add: handle_rate_limit_error_def key f2 Let_def)
  show ?thesis
    using key former_class [OF inv absent] f1 f2 f3 w h by simp
qed

lemma lower_getInventoryItems: "lower ''getInventoryItems'' = ''getinventoryitems''"
  by (simp add: lower_def lower_char_def)

lemma example_limiter_run:
  "fst (foldl apply_limiter_op (RateLimiter_init, \<lparr>clock = 0, trace = []\<rparr>)
          [LWait ''getInventoryItems'', LHandle ''getInventoryItems'' None])
   = RateLimiter_init\<lparr>last_call_times := [''inventory'' \<mapsto> 0],
                        retry_counts := [''inventory'' \<mapsto> 1],
                        backoff_until := [''inventory'' \<mapsto> 2]\<rparr>"
proof -
  have k: "get_rate_limit_key RateLimiter_init ''getInventoryItems'' = ''inventory''"
    by (simp add: get_rate_limit_key_def lower_getInventoryItems RateLimiter_init_def)
  have w: "wait_if_needed RateLimiter_init ''getInventoryItems'' \<lparr>clock = 0, trace = []\<rparr>
     = (Inr (), RateLimiter_init\<lparr>last_call_times := [''inventory'' \<mapsto> 0]\<rparr>, \<lparr>clock = 0, trace = []\<rparr>)"
    by (simp add: wait_if_needed_def k Let_def) (simp add: RateLimiter_init_def)
  have k2: "get_rate_limit_key (RateLimiter_init\<lparr>last_call_times := [''inventory'' \<mapsto> 0]\<rparr>) ''getInventoryItems'' = ''inventory''"
    by (simp add: get_rate_limit_key_def lower_getInventoryItems RateLimiter_init_def)
  have h: "snd (handle_rate_limit_error (RateLimiter_init\<lparr>last_call_times := [''inventory'' \<mapsto> 0]\<rparr>)
              ''getInventoryItems'' None 0)
     = RateLimiter_init\<lparr>last_call_times := [''inventory'' \<mapsto> 0],
                        retry_counts := [''inventory'' \<mapsto> 1],
                        backoff_until := [''inventory'' \<mapsto> 2]\<rparr>"
    by (simp add: handle_rate_limit_error_def k2 Let_def) (simp add: RateLimiter_init_def)
  show ?thesis by (simp add: w h)
qed

theorem C10_fresh_class_witness:
  "(let rl = fst (foldl apply_limiter_op (RateLimiter_init, \<lparr>clock = 0, trace = []\<rparr>)
                [LWait ''getInventoryItems'', LHandle ''getInventoryItems'' None]);
        rl' = update_rate_limit_from_error rl ''getInventoryItems'' ''429 Only 1 API calls per minute''
    in rate_limits rl (lower ''getInventoryItems'') = None
       \<and> re_search ''429 Only 1 API calls per minute'' = Some 1
       \<and> get_rate_limit_key rl ''getInventoryItems'' = ''inventory''
       \<and> last_call_times rl ''inventory'' = Some 0
       \<and> backoff_until rl ''inventory'' = Some 2
       \<and> get_rate_limit_key rl' ''getInventoryItems'' = ''getinventoryitems''
       \<and> backoff_until rl' ''getinventoryitems'' = None
       \<and> wait_if_needed rl' ''getInventoryItems'' \<lparr>clock = 1, trace = []\<rparr>
            = (Inr (), rl'\<lparr>last_call_times := (last_call_times rl')(''getinventoryitems'' \<mapsto> 1)\<rparr>,
               \<lparr>clock = 1, trace = []\<rparr>))"
proof -
  define rl where "rl = fst (foldl apply_limiter_op (RateLimiter_init, \<lparr>clock = 0, trace = []\<rparr>)
                [LWait ''getInventoryItems'', LHandle ''getInventoryItems'' None])"
  define rl' where "rl' = update_rate_limit_from_error rl ''getInventoryItems'' ''429 Only 1 API calls per minute''"
  have rl_eq: "rl = RateLimiter_init\<lparr>last_call_times := [''inventory'' \<mapsto> 0],
                        retry_counts := [''inventory'' \<mapsto> 1],
                        backoff_until := [''inventory'' \<mapsto> 2]\<rparr>"
    unfolding rl_def by (rule example_limiter_run)
  have absent: "rate_limits rl (lower ''getInventoryItems'') = None"
    by (simp add: rl_eq lower_getInventoryItems RateLimiter_init_def)
  have matches: "re_search ''429 Only 1 API calls per minute'' = Some 1"
    by (simp add: match_here_def is_digit_def int_of_digits_def digit_val_def)
  have key: "get_rate_limit_key rl ''getInventoryItems'' = ''inventory''"
    by (simp add: rl_eq get_rate_limit_key_def lower_getInventoryItems RateLimiter_init_def)
  have old: "last_call_times rl ''inventory'' = Some 0 \<and> backoff_until rl ''inventory'' = Some 2"
    by (simp add: rl_eq)
  note inst = C10_fresh_class [OF rl_def absent matches rl'_def, of "\<lparr>clock = 1, trace = []\<rparr>" 0]
  have "rate_limits rl (lower ''getInventoryItems'') = None
       \<and> re_search ''429 Only 1 API calls per minute'' = Some 1
       \<and> get_rate_limit_key rl ''getInventoryItems'' = ''inventory''
       \<and> last_call_times rl ''inventory'' = Some 0
       \<and> backoff_until rl ''inventory'' = Some 2
       \<and> get_rate_limit_key rl' ''getInventoryItems'' = ''getinventoryitems''
       \<and> backoff_until rl' ''getinventoryitems'' = None
       \<and> wait_if_needed rl' ''getInventoryItems'' \<lparr>clock = 1, trace = []\<rparr>
            = (Inr (), rl'\<lparr>last_call_times := (last_call_times rl')(''getinventoryitems'' \<mapsto> 1)\<rparr>,
               \<lparr>clock = 1, trace = []\<rparr>)"
    using absent matches key old inst by (simp add: lower_getInventoryItems)
  then show ?thesis
    unfolding rl_def rl'_def Let_def .
qed

section \<open>Minimum spacing of calls of one class\<close>







text \<open>
  The function split at its awaits is the function itself when no other caller runs in
  between.
\<close>

lemma wait_alone_eq: "wait_alone rl e w = wait_if_needed rl e w"
  by (auto simp: wait_alone_def wait_if_needed_def wait_enter_def wait_spacing_check_def
        wait_finish_def Let_def sleep_def split: option.splits prod.splits wait_status.splits)



section \<open>The order of rate limiting and caching in call_endpoint\<close>

lemma wait_trace:
  "http_requests (trace (snd (snd (wait_if_needed rl e w)))) = http_requests (trace w)"
  by (auto simp: wait_if_needed_def Let_def sleep_def http_requests_def split: option.splits prod.splits)

lemma with_cache_hit:
  assumes "dict_get (cache c) (get_cache_key L e kwargs) = Some (v, expiry_time)"
    and "clock w < expiry_time" and "v \<noteq> PNone"
  shows "with_cache L func e kwargs (c, w) = (Inr v, c, w)"
  using assms by (simp add: with_cache_def cache_get_def Let_def)

text \<open>
  C1, amended. The rate-limit wrapper is the outer decorator, so the gate runs before the
  cache is consulted. If the gate returns and the cache then holds an unexpired entry for
  the endpoint and parameters (a value that is neither \<^verbatim>\<open>None\<close> nor an error mapping),
  the call returns the cached value, makes no HTTP request and leaves the cache as it
  was; the limiter is left as \<open>wait_if_needed\<close> followed by \<open>reset_retry_count\<close> leave
  it, with the time at which the gate was passed as the last call time of the class.
\<close>

theorem C1_cache_hit_after_gate:
  assumes gate: "wait_if_needed rl e w = (Inr (), rl1, w1)"
    and entry: "dict_get (cache c) (get_cache_key L e kwargs) = Some (v, expiry_time)"
    and unexpired: "clock w1 < expiry_time"
    and notnone: "v \<noteq> PNone"
    and noerr: "\<not> is_error_value v"
  shows "call_endpoint L http_post self e kwargs (rl, c, w) = (Inr v, reset_retry_count rl1 e, c, w1)
         \<and> http_requests (trace w1) = http_requests (trace w)
         \<and> last_call_times (reset_retry_count rl1 e) (get_rate_limit_key rl e) = Some (clock w1)"
proof -
  have hit: "with_cache L (call_endpoint_raw http_post self) e kwargs (c, w1) = (Inr v, c, w1)"
    using entry unexpired notnone by (rule with_cache_hit)
  have call: "call_endpoint L http_post self e kwargs (rl, c, w) = (Inr v, reset_retry_count rl1 e, c, w1)"
    unfolding call_endpoint_def
    by (subst rate_limit_loop.simps) (simp add: gate hit noerr)
  have tr: "http_requests (trace w1) = http_requests (trace w)"
    using wait_trace [of rl e w] by (simp add: gate)
  have lc: "last_call_times (reset_retry_count rl1 e) (get_rate_limit_key rl e) = Some (clock w1)"
    using gate
    by (auto simp: reset_retry_count_def wait_if_needed_def Let_def split: option.splits if_splits prod.splits)
  from call tr lc show ?thesis by simp
qed

lemma lower_getwarehouses: "lower ''getwarehouses'' = ''getwarehouses''"
  by (simp add: lower_def lower_char_def)

lemma key_getwarehouses:
  "rate_limits rl = rate_limits RateLimiter_init \<Longrightarrow> get_rate_limit_key rl ''getwarehouses'' = ''getwarehouses''"
  by (simp add: get_rate_limit_key_def lower_getwarehouses RateLimiter_init_def)

lemma example_cached:
  "cache_set example_lib global_cache ''getwarehouses'' [] (PDict [(''Warehouses'', PList [])]) None 0
   = global_cache\<lparr>cache := [(''44d65a3e5bdabce9cdb6f0468ae15eea'', (PDict [(''Warehouses'', PList [])], 3600))]\<rparr>"
  by (simp add: cache_set_def get_cache_key_def example_lib_def global_cache_def SimpleCache_init_def
      get_ttl_def lower_getwarehouses)

lemma example_gate:
  "wait_if_needed (RateLimiter_init\<lparr>last_call_times := [''getwarehouses'' \<mapsto> 0]\<rparr>)
     ''getwarehouses'' \<lparr>clock = 10, trace = []\<rparr>
   = (Inr (), RateLimiter_init\<lparr>last_call_times := [''getwarehouses'' \<mapsto> 60]\<rparr>,
      \<lparr>clock = 60, trace = [Sleep 50]\<rparr>)"
  by (simp add: wait_if_needed_def key_getwarehouses Let_def sleep_def)
     (simp add: RateLimiter_init_def Let_def sleep_def)

lemma example_reset:
  "reset_retry_count (RateLimiter_init\<lparr>last_call_times := [''getwarehouses'' \<mapsto> t]\<rparr>) ''getwarehouses''
   = RateLimiter_init\<lparr>last_call_times := [''getwarehouses'' \<mapsto> t]\<rparr>"
  by (simp add: reset_retry_count_def Let_def) (simp add: RateLimiter_init_def)

lemma example_first_call:
  "call_endpoint example_lib example_transport example_client ''getwarehouses'' []
     (RateLimiter_init, global_cache, \<lparr>clock = 0, trace = []\<rparr>)
   = (Inr (PDict [(''Warehouses'', PList [])]),
      RateLimiter_init\<lparr>last_call_times := [''getwarehouses'' \<mapsto> 0]\<rparr>,
      cache_set example_lib global_cache ''getwarehouses'' [] (PDict [(''Warehouses'', PList [])]) None 0,
      \<lparr>clock = 0, trace = [HttpPost ''/inventory/getWarehouses'' [(''TenantToken'', PStr ''tenant''), (''UserToken'', PStr ''user'')]]\<rparr>)"
proof -
  have gate: "wait_if_needed RateLimiter_init ''getwarehouses'' \<lparr>clock = 0, trace = []\<rparr>
              = (Inr (), RateLimiter_init\<lparr>last_call_times := [''getwarehouses'' \<mapsto> 0]\<rparr>,
                 \<lparr>clock = 0, trace = []\<rparr>)"
    by (simp add: wait_if_needed_def key_getwarehouses Let_def sleep_def)
       (simp add: RateLimiter_init_def Let_def sleep_def)
  have raw: "call_endpoint_raw example_transport example_client ''getwarehouses'' [] \<lparr>clock = 0, trace = []\<rparr>
     = (Inr (PDict [(''Warehouses'', PList [])]),
        \<lparr>clock = 0, trace = [HttpPost ''/inventory/getWarehouses'' [(''TenantToken'', PStr ''tenant''), (''UserToken'', PStr ''user'')]]\<rparr>)"
    by (simp add: call_endpoint_raw_def example_client_def example_transport_def lower_getwarehouses Let_def)
  have miss: "with_cache example_lib (call_endpoint_raw example_transport example_client) ''getwarehouses'' []
               (global_cache, \<lparr>clock = 0, trace = []\<rparr>)
             = (Inr (PDict [(''Warehouses'', PList [])]),
                cache_set example_lib global_cache ''getwarehouses'' [] (PDict [(''Warehouses'', PList [])]) None 0,
                \<lparr>clock = 0, trace = [HttpPost ''/inventory/getWarehouses'' [(''TenantToken'', PStr ''tenant''), (''UserToken'', PStr ''user'')]]\<rparr>)"
    by (simp add: with_cache_def cache_get_def Let_def global_cache_def SimpleCache_init_def raw)
  have reset: "reset_retry_count (RateLimiter_init\<lparr>last_call_times := [''getwarehouses'' \<mapsto> 0]\<rparr>) ''getwarehouses''
               = RateLimiter_init\<lparr>last_call_times := [''getwarehouses'' \<mapsto> 0]\<rparr>"
    by (simp add: reset_retry_count_def Let_def) (simp add: RateLimiter_init_def)
  show ?thesis
    unfolding call_endpoint_def
    by (subst rate_limit_loop.simps) (simp add: gate miss reset)
qed


lemma example_second_call:
  "call_endpoint example_lib example_transport example_client ''getwarehouses'' []
     (RateLimiter_init\<lparr>last_call_times := [''getwarehouses'' \<mapsto> 0]\<rparr>,
      cache_set example_lib global_cache ''getwarehouses'' [] (PDict [(''Warehouses'', PList [])]) None 0,
      \<lparr>clock = 10, trace = []\<rparr>)
   = (Inr (PDict [(''Warehouses'', PList [])]),
      RateLimiter_init\<lparr>last_call_times := [''getwarehouses'' \<mapsto> 60]\<rparr>,
      cache_set example_lib global_cache ''getwarehouses'' [] (PDict [(''Warehouses'', PList [])]) None 0,
      \<lparr>clock = 60, trace = [Sleep 50]\<rparr>)"
proof -
  have gate: "wait_if_needed (RateLimiter_init\<lparr>last_call_times := [''getwarehouses'' \<mapsto> 0]\<rparr>)
                ''getwarehouses'' \<lparr>clock = 10, trace = []\<rparr>
              = (Inr (), RateLimiter_init\<lparr>last_call_times := [''getwarehouses'' \<mapsto> 60]\<rparr>,
                 \<lparr>clock = 60, trace = [Sleep 50]\<rparr>)"
    by (simp add: wait_if_needed_def key_getwarehouses Let_def sleep_def)
       (simp add: RateLimiter_init_def Let_def sleep_def)
  have hit: "with_cache example_lib (call_endpoint_raw example_transport example_client) ''getwarehouses'' []
               (cache_set example_lib global_cache ''getwarehouses'' [] (PDict [(''Warehouses'', PList [])]) None 0,
                \<lparr>clock = 60, trace = [Sleep 50]\<rparr>)
             = (Inr (PDict [(''Warehouses'', PList [])]),
                cache_set example_lib global_cache ''getwarehouses'' [] (PDict [(''Warehouses'', PList [])]) None 0,
                \<lparr>clock = 60, trace = [Sleep 50]\<rparr>)"
    by (simp add: example_cached with_cache_def cache_get_def Let_def)
       (simp add: get_cache_key_def example_lib_def)
  have reset: "reset_retry_count (RateLimiter_init\<lparr>last_call_times := [''getwarehouses'' \<mapsto> 60]\<rparr>) ''getwarehouses''
               = RateLimiter_init\<lparr>last_call_times := [''getwarehouses'' \<mapsto> 60]\<rparr>"
    by (simp add: reset_retry_count_def Let_def) (simp add: RateLimiter_init_def)
  show ?thesis
    unfolding call_endpoint_def
    by (subst rate_limit_loop.simps) (simp add: gate hit reset)
qed


text \<open>
  C1, as the claim states it, fails. The first call, at time 0 on an empty cache, makes the
  HTTP request and caches the answer for 3600 seconds. The second call, at time 10, has a
  valid cache entry; it sleeps 50 seconds at the rate-limit gate before it returns the
  cached answer, and the last call time of the class moves from 0 to 60.
\<close>

theorem C1_cache_hit_waits_at_gate:
  "call_endpoint example_lib example_transport example_client ''getwarehouses'' []
     (RateLimiter_init, global_cache, \<lparr>clock = 0, trace = []\<rparr>)
   = (Inr (PDict [(''Warehouses'', PList [])]),
      RateLimiter_init\<lparr>last_call_times := [''getwarehouses'' \<mapsto> 0]\<rparr>,
      cache_set example_lib global_cache ''getwarehouses'' [] (PDict [(''Warehouses'', PList [])]) None 0,
      \<lparr>clock = 0, trace = [HttpPost ''/inventory/getWarehouses''
                               [(''TenantToken'', PStr ''tenant''), (''UserToken'', PStr ''user'')]]\<rparr>)
   \<and> fst (cache_get example_lib
          (cache_set example_lib global_cache ''getwarehouses'' [] (PDict [(''Warehouses'', PList [])]) None 0)
          ''getwarehouses'' [] 10)
     = PDict [(''Warehouses'', PList [])]
   \<and> call_endpoint example_lib example_transport example_client ''getwarehouses'' []
     (RateLimiter_init\<lparr>last_call_times := [''getwarehouses'' \<mapsto> 0]\<rparr>,
      cache_set example_lib global_cache ''getwarehouses'' [] (PDict [(''Warehouses'', PList [])]) None 0,
      \<lparr>clock = 10, trace = []\<rparr>)
   = (Inr (PDict [(''Warehouses'', PList [])]),
      RateLimiter_init\<lparr>last_call_times := [''getwarehouses'' \<mapsto> 60]\<rparr>,
      cache_set example_lib global_cache ''getwarehouses'' [] (PDict [(''Warehouses'', PList [])]) None 0,
      \<lparr>clock = 60, trace = [Sleep 50]\<rparr>)"
proof -
  have valid: "fst (cache_get example_lib
          (cache_set example_lib global_cache ''getwarehouses'' [] (PDict [(''Warehouses'', PList [])]) None 0)
          ''getwarehouses'' [] 10)
     = PDict [(''Warehouses'', PList [])]"
    by (simp add: example_cached cache_get_def Let_def) (simp add: get_cache_key_def example_lib_def)
  from example_first_call valid example_second_call show ?thesis by simp
qed

theorem C1_cache_hit_after_gate_witness:
  "wait_if_needed (RateLimiter_init\<lparr>last_call_times := [''getwarehouses'' \<mapsto> 0]\<rparr>)
     ''getwarehouses'' \<lparr>clock = 10, trace = []\<rparr>
   = (Inr (), RateLimiter_init\<lparr>last_call_times := [''getwarehouses'' \<mapsto> 60]\<rparr>,
      \<lparr>clock = 60, trace = [Sleep 50]\<rparr>)
   \<and> dict_get (cache (cache_set example_lib global_cache ''getwarehouses'' []
                      (PDict [(''Warehouses'', PList [])]) None 0))
         (get_cache_key example_lib ''getwarehouses'' [])
     = Some (PDict [(''Warehouses'', PList [])], 3600)
   \<and> clock \<lparr>clock = 60, trace = [Sleep 50]\<rparr> < 3600
   \<and> PDict [(''Warehouses'', PList [])] \<noteq> PNone
   \<and> \<not> is_error_value (PDict [(''Warehouses'', PList [])])
   \<and> call_endpoint example_lib example_transport example_client ''getwarehouses'' []
     (RateLimiter_init\<lparr>last_call_times := [''getwarehouses'' \<mapsto> 0]\<rparr>,
      cache_set example_lib global_cache ''getwarehouses'' [] (PDict [(''Warehouses'', PList [])]) None 0,
      \<lparr>clock = 10, trace = []\<rparr>)
   = (Inr (PDict [(''Warehouses'', PList [])]),
      reset_retry_count (RateLimiter_init\<lparr>last_call_times := [''getwarehouses'' \<mapsto> 60]\<rparr>) ''getwarehouses'',
      cache_set example_lib global_cache ''getwarehouses'' [] (PDict [(''Warehouses'', PList [])]) None 0,
      \<lparr>clock = 60, trace = [Sleep 50]\<rparr>)"
proof -
  have entry: "dict_get (cache (cache_set example_lib global_cache ''getwarehouses'' []
                      (PDict [(''Warehouses'', PList [])]) None 0))
         (get_cache_key example_lib ''getwarehouses'' [])
     = Some (PDict [(''Warehouses'', PList [])], 3600)"
    by (simp add: example_cached) (simp add: get_cache_key_def example_lib_def)
  have unexpired: "clock \<lparr>clock = 60, trace = [Sleep 50]\<rparr> < 3600" by simp
  have notnone: "PDict [(''Warehouses'', PList [])] \<noteq> PNone" by simp
  have noerr: "\<not> is_error_value (PDict [(''Warehouses'', PList [])])" by simp
  from C1_cache_hit_after_gate [OF example_gate entry unexpired notnone noerr,
      of example_transport example_client]
  have "call_endpoint example_lib example_transport example_client ''getwarehouses'' []
     (RateLimiter_init\<lparr>last_call_times := [''getwarehouses'' \<mapsto> 0]\<rparr>,
      cache_set example_lib global_cache ''getwarehouses'' [] (PDict [(''Warehouses'', PList [])]) None 0,
      \<lparr>clock = 10, trace = []\<rparr>)
   = (Inr (PDict [(''Warehouses'', PList [])]),
      reset_retry_count (RateLimiter_init\<lparr>last_call_times := [''getwarehouses'' \<mapsto> 60]\<rparr>) ''getwarehouses'',
      cache_set example_lib global_cache ''getwarehouses'' [] (PDict [(''Warehouses'', PList [])]) None 0,
      \<lparr>clock = 60, trace = [Sleep 50]\<rparr>)"
    by blast
  with example_gate entry unexpired notnone noerr show ?thesis by blast
qed

section \<open>Waiting for the result of a queued request\<close>








end
